theory Spec2Isabelle
  imports Main "HOL-Library.Word"
begin

unbundle bit_operations_syntax

section \<open>The topology catalog\<close>

text \<open>
  The enumeration \<^verbatim>\<open>Dimensions\<close> of \<^verbatim>\<open>chip.plugin.c\<close>. Its last enumerator,
  \<^verbatim>\<open>MaxDimensions\<close>, is only used as the array size and, under the name
  \<^verbatim>\<open>EMPTY_DIM\<close>, as the filler of unused chart slots; a chart slot is therefore a
  \<open>Dimensions option\<close> here, \<open>None\<close> standing for \<^verbatim>\<open>EMPTY_DIM\<close>.
\<close>

datatype Dimensions =
    internaltemp
  | batlevel
  | chargelimit
  | chargeterm
  | batcharge
  | batdischarge
  | batvoltage
  | acinvoltage
  | acincurrent
  | vbusvoltage
  | vbusvoltagelimit
  | vbuscurrent
  | vbuscurrentlimit

text \<open>The integer value of an enumerator, as used in \<^verbatim>\<open>1 << index\<close>.\<close>

fun dim_index :: "Dimensions \<Rightarrow> nat" where
  "dim_index internaltemp = 0"
| "dim_index batlevel = 1"
| "dim_index chargelimit = 2"
| "dim_index chargeterm = 3"
| "dim_index batcharge = 4"
| "dim_index batdischarge = 5"
| "dim_index batvoltage = 6"
| "dim_index acinvoltage = 7"
| "dim_index acincurrent = 8"
| "dim_index vbusvoltage = 9"
| "dim_index vbusvoltagelimit = 10"
| "dim_index vbuscurrent = 11"
| "dim_index vbuscurrentlimit = 12"

datatype DataType = Float | Uint8 | Uint16

record DimensionDefinition =
  Name :: string
  DataType :: DataType
  DataFormat :: string
  Properties :: string

text \<open>
  The table \<^verbatim>\<open>gDimensionDefinitions\<close>. The macros \<^verbatim>\<open>PRIu8\<close> and \<^verbatim>\<open>PRIu16\<close> are
  both \<^verbatim>\<open>"u"\<close> in glibc's \<^verbatim>\<open>inttypes.h\<close>.
\<close>

fun gDimensionDefinitions :: "Dimensions \<Rightarrow> DimensionDefinition" where
  "gDimensionDefinitions internaltemp =
     \<lparr>Name = ''internaltemp'', DataType = Float, DataFormat = ''%.1f'',
      Properties = [CHR 0x22] @ ''Internal Temp'' @ [CHR 0x22] @ '' absolute''\<rparr>"
| "gDimensionDefinitions batlevel =
     \<lparr>Name = ''batlevel'', DataType = Uint8, DataFormat = ''%u'',
      Properties = [CHR 0x22] @ ''Charge'' @ [CHR 0x22] @ '' absolute''\<rparr>"
| "gDimensionDefinitions chargelimit =
     \<lparr>Name = ''chargelimit'', DataType = Uint16, DataFormat = ''%u'',
      Properties = [CHR 0x22] @ ''Charge Limit'' @ [CHR 0x22] @ '' absolute''\<rparr>"
| "gDimensionDefinitions chargeterm =
     \<lparr>Name = ''chargeterm'', DataType = Uint16, DataFormat = ''%u'',
      Properties = [CHR 0x22] @ ''Charge Termination Limit'' @ [CHR 0x22] @ '' absolute''\<rparr>"
| "gDimensionDefinitions batcharge =
     \<lparr>Name = ''batcharge'', DataType = Float, DataFormat = ''%.1f'',
      Properties = [CHR 0x22] @ ''Batt Charge'' @ [CHR 0x22] @ '' absolute''\<rparr>"
| "gDimensionDefinitions batdischarge =
     \<lparr>Name = ''batdischarge'', DataType = Uint16, DataFormat = ''%u'',
      Properties = [CHR 0x22] @ ''Batt Discharge'' @ [CHR 0x22] @ '' absolute''\<rparr>"
| "gDimensionDefinitions batvoltage =
     \<lparr>Name = ''batvoltage'', DataType = Float, DataFormat = ''%.1f'',
      Properties = [CHR 0x22] @ ''Voltage'' @ [CHR 0x22] @ '' absolute''\<rparr>"
| "gDimensionDefinitions acinvoltage =
     \<lparr>Name = ''acinvoltage'', DataType = Float, DataFormat = ''%.1f'',
      Properties = [CHR 0x22] @ ''Voltage'' @ [CHR 0x22] @ '' absolute''\<rparr>"
| "gDimensionDefinitions acincurrent =
     \<lparr>Name = ''acincurrent'', DataType = Float, DataFormat = ''%.3f'',
      Properties = [CHR 0x22] @ ''Current'' @ [CHR 0x22] @ '' absolute''\<rparr>"
| "gDimensionDefinitions vbusvoltage =
     \<lparr>Name = ''vbusvoltage'', DataType = Float, DataFormat = ''%.1f'',
      Properties = [CHR 0x22] @ ''Voltage'' @ [CHR 0x22] @ '' absolute''\<rparr>"
| "gDimensionDefinitions vbusvoltagelimit =
     \<lparr>Name = ''vbusvoltagelimit'', DataType = Uint16, DataFormat = ''%u'',
      Properties = [CHR 0x22] @ ''Limit'' @ [CHR 0x22] @ '' absolute''\<rparr>"
| "gDimensionDefinitions vbuscurrent =
     \<lparr>Name = ''vbuscurrent'', DataType = Float, DataFormat = ''%.3f'',
      Properties = [CHR 0x22] @ ''Current'' @ [CHR 0x22] @ '' absolute''\<rparr>"
| "gDimensionDefinitions vbuscurrentlimit =
     \<lparr>Name = ''vbuscurrentlimit'', DataType = Uint16, DataFormat = ''%u'',
      Properties = [CHR 0x22] @ ''Limit'' @ [CHR 0x22] @ '' absolute''\<rparr>"

record ChartDefinition =
  ChartName :: string
  ChartProperties :: string
  ChartDimensions :: "Dimensions option list"

text \<open>
  The table \<^verbatim>\<open>gChartDefinitions\<close>; every chart has \<^verbatim>\<open>MAX_CHART_DIMENSIONS\<close> = 4
  slots. \<open>quoted s\<close> is \<open>s\<close> between two double-quote characters.
\<close>

definition quoted :: "string \<Rightarrow> string" where
  "quoted s = [CHR 0x22] @ s @ [CHR 0x22]"

definition chart_properties :: "string \<Rightarrow> string \<Rightarrow> string" where
  "chart_properties title units = quoted [] @ '' '' @ quoted title @ '' '' @ quoted units"

definition gChartDefinitions :: "ChartDefinition list" where
  "gChartDefinitions =
    [\<lparr>ChartName = ''Chip.temps'',
      ChartProperties = chart_properties ''Temperature'' ''Degrees (F)'',
      ChartDimensions = [Some internaltemp, None, None, None]\<rparr>,
     \<lparr>ChartName = ''Chip.batterylevel'',
      ChartProperties = chart_properties ''Battery Level'' ''%'',
      ChartDimensions = [Some batlevel, None, None, None]\<rparr>,
     \<lparr>ChartName = ''Chip.batterycurrent'',
      ChartProperties = chart_properties ''Battery Current'' ''mA'',
      ChartDimensions = [Some chargelimit, Some chargeterm, Some batcharge, Some batdischarge]\<rparr>,
     \<lparr>ChartName = ''Chip.batteryvoltage'',
      ChartProperties = chart_properties ''Battery Voltage'' ''mV'',
      ChartDimensions = [Some batvoltage, None, None, None]\<rparr>,
     \<lparr>ChartName = ''Chip.acinvoltage'',
      ChartProperties = chart_properties ''ACIN Voltage'' ''mV'',
      ChartDimensions = [Some acinvoltage, None, None, None]\<rparr>,
     \<lparr>ChartName = ''Chip.acincurrent'',
      ChartProperties = chart_properties ''ACIN Current'' ''mA'',
      ChartDimensions = [Some acincurrent, None, None, None]\<rparr>,
     \<lparr>ChartName = ''Chip.vbusvoltage'',
      ChartProperties = chart_properties ''VBUS Voltage'' ''mV'',
      ChartDimensions = [Some vbusvoltage, Some vbusvoltagelimit, None, None]\<rparr>,
     \<lparr>ChartName = ''Chip.vbuscurrent'',
      ChartProperties = chart_properties ''VBUS Current'' ''mA'',
      ChartDimensions = [Some vbuscurrent, Some vbuscurrentlimit, None, None]\<rparr>]"

section \<open>Platform: number formats and formatting\<close>

text \<open>
  A C \<^verbatim>\<open>float\<close> is modelled by its IEEE-754 binary32 bit pattern and a \<^verbatim>\<open>double\<close> by its
  binary64 bit pattern. The rounding arithmetic of the target and the \<^verbatim>\<open>%f\<close> conversions
  of \<^verbatim>\<open>sprintf\<close> are not part of this program: they are the fields of a record that
  every function using them takes as its first argument, so every theorem below holds
  for any floating-point unit and any C library.
\<close>

type_synonym float32 = "32 word"
type_synonym float64 = "64 word"

record platform =
  d_mul :: "float64 \<Rightarrow> float64 \<Rightarrow> float64"
  d_sub :: "float64 \<Rightarrow> float64 \<Rightarrow> float64"
  d_to_f :: "float64 \<Rightarrow> float32"
  f_mul :: "float32 \<Rightarrow> float32 \<Rightarrow> float32"
  f_div :: "float32 \<Rightarrow> float32 \<Rightarrow> float32"
  sprintf_float :: "string \<Rightarrow> float32 \<Rightarrow> string"

text \<open>
  The conversion of an unsigned integer to a floating-point number is exact for the
  16-bit values of this program, and is written out: \<open>msb_index n\<close> is the position of
  the highest set bit, and a number \<open>n = 2 ^ e + r\<close> has the biased exponent \<open>e + bias\<close>
  and the fraction \<open>r\<close> shifted to the top of the fraction field.
\<close>

fun msb_index :: "nat \<Rightarrow> nat" where
  "msb_index n = (if n < 2 then 0 else Suc (msb_index (n div 2)))"

definition ieee_of_nat :: "nat \<Rightarrow> nat \<Rightarrow> nat \<Rightarrow> nat" where
  "ieee_of_nat fraction_bits bias n =
     (if n = 0 then 0
      else (msb_index n + bias) * 2 ^ fraction_bits
           + (n - 2 ^ msb_index n) * 2 ^ (fraction_bits - msb_index n))"

definition float_of_uint16 :: "16 word \<Rightarrow> float32" where
  "float_of_uint16 v = of_nat (ieee_of_nat 23 127 (unat v))"

definition double_of_uint16 :: "16 word \<Rightarrow> float64" where
  "double_of_uint16 v = of_nat (ieee_of_nat 52 1023 (unat v))"

text \<open>The constants of the source, as bit patterns.\<close>

definition const_0_18 :: float64 where "const_0_18 = 0x3FC70A3D70A3D70A"
definition const_228_46 :: float64 where "const_228_46 = 0x406C8EB851EB851F"
definition const_2_0f :: float32 where "const_2_0f = 0x40000000"
definition const_1_1f :: float32 where "const_1_1f = 0x3F8CCCCD"
definition const_1_7f :: float32 where "const_1_7f = 0x3FD9999A"
definition const_0_625f :: float32 where "const_0_625f = 0x3F200000"
definition const_0_375f :: float32 where "const_0_375f = 0x3EC00000"

text \<open>Decimal digits of an unsigned number: what \<^verbatim>\<open>%u\<close> prints.\<close>

fun dec :: "nat \<Rightarrow> string" where
  "dec n = (if n < 10 then [''0123456789'' ! n]
            else dec (n div 10) @ [''0123456789'' ! (n mod 10)])"

text \<open>
  What \<^verbatim>\<open>%#02x\<close> prints: lower-case hexadecimal digits after the prefix \<^verbatim>\<open>0x\<close>; the
  value zero gets no prefix and is padded to the width of two.
\<close>

fun hex :: "nat \<Rightarrow> string" where
  "hex n = (if n < 16 then [''0123456789abcdef'' ! n]
            else hex (n div 16) @ [''0123456789abcdef'' ! (n mod 16)])"

definition hex_alt :: "8 word \<Rightarrow> string" where
  "hex_alt a = (if a = 0 then ''00'' else ''0x'' @ hex (unat a))"

section \<open>The sample store\<close>

text \<open>
  \<^verbatim>\<open>value_t\<close> is a union of a \<^verbatim>\<open>float\<close>, a \<^verbatim>\<open>uint8_t\<close> and a \<^verbatim>\<open>uint16_t\<close>: four
  bytes, modelled as one 32-bit word in the little-endian layout of the ARM and x86
  targets, where the members \<^verbatim>\<open>asUint8\<close> and \<^verbatim>\<open>asUint16\<close> are the low 8 and the low 16
  bits of the word that \<^verbatim>\<open>asFloat\<close> fills. Writing a narrow member leaves the other
  bytes as they are.
\<close>

type_synonym value_t = "32 word"

definition asFloat :: "value_t \<Rightarrow> float32" where
  "asFloat v = v"

definition asUint8 :: "value_t \<Rightarrow> 8 word" where
  "asUint8 v = ucast v"

definition asUint16 :: "value_t \<Rightarrow> 16 word" where
  "asUint16 v = ucast v"

definition set_asFloat :: "value_t \<Rightarrow> float32 \<Rightarrow> value_t" where
  "set_asFloat v x = x"

definition set_asUint8 :: "value_t \<Rightarrow> 8 word \<Rightarrow> value_t" where
  "set_asUint8 v x = (v AND NOT 0xFF) OR ucast x"

definition set_asUint16 :: "value_t \<Rightarrow> 16 word \<Rightarrow> value_t" where
  "set_asUint16 v x = (v AND NOT 0xFFFF) OR ucast x"

record store =
  gData :: "Dimensions \<Rightarrow> value_t"
  gIsValid :: "32 word"

definition save_data_float :: "store \<Rightarrow> Dimensions \<Rightarrow> float32 \<Rightarrow> store" where
  "save_data_float st index v =
     st\<lparr>gData := (gData st)(index := set_asFloat (gData st index) v),
        gIsValid := gIsValid st OR push_bit (dim_index index) 1\<rparr>"

definition save_data_uint8 :: "store \<Rightarrow> Dimensions \<Rightarrow> 8 word \<Rightarrow> store" where
  "save_data_uint8 st index v =
     st\<lparr>gData := (gData st)(index := set_asUint8 (gData st index) v),
        gIsValid := gIsValid st OR push_bit (dim_index index) 1\<rparr>"

definition save_data_uint16 :: "store \<Rightarrow> Dimensions \<Rightarrow> 16 word \<Rightarrow> store" where
  "save_data_uint16 st index v =
     st\<lparr>gData := (gData st)(index := set_asUint16 (gData st index) v),
        gIsValid := gIsValid st OR push_bit (dim_index index) 1\<rparr>"

text \<open>The test \<^verbatim>\<open>(gIsValid & (1 << index)) != 0\<close>.\<close>

definition is_valid :: "store \<Rightarrow> Dimensions \<Rightarrow> bool" where
  "is_valid st index \<longleftrightarrow> gIsValid st AND push_bit (dim_index index) 1 \<noteq> 0"

text \<open>
  \<^verbatim>\<open>format_data_value\<close>: the text left in the buffer. The member of the union that is
  read is chosen by the declared \<^verbatim>\<open>DataType\<close> of the dimension, whatever member was
  written.
\<close>

definition format_data_value :: "platform \<Rightarrow> store \<Rightarrow> Dimensions \<Rightarrow> string" where
  "format_data_value pf st index =
     (if \<not> is_valid st index then []
      else case DataType (gDimensionDefinitions index) of
             Float \<Rightarrow> sprintf_float pf (DataFormat (gDimensionDefinitions index))
                        (asFloat (gData st index))
           | Uint8 \<Rightarrow> dec (unat (asUint8 (gData st index)))
           | Uint16 \<Rightarrow> dec (unat (asUint16 (gData st index))))"

section \<open>The bus transport\<close>

text \<open>
  A run of the process ends early through \<^verbatim>\<open>exit(1)\<close> after a diagnostic on the error
  stream. Such a run is the \<open>Inl\<close> branch of a sum, carrying the diagnostic; \<open>thenDo\<close>
  sequences two steps and stops at the first exit.
\<close>

type_synonym 'a or_exit = "string + 'a"

definition thenDo :: "'a or_exit \<Rightarrow> ('a \<Rightarrow> 'b or_exit) \<Rightarrow> 'b or_exit" where
  "thenDo m f = (case m of Inl msg \<Rightarrow> Inl msg | Inr x \<Rightarrow> f x)"

text \<open>
  Within one decode cycle every register is read at most once, so the device is a
  snapshot: what the query of a register address meets. Either the \<^verbatim>\<open>write\<close> of the
  address fails, or the \<^verbatim>\<open>read\<close> of the byte fails, or a byte arrives.
\<close>

datatype bus_reply = WriteFailed | ReadFailed | Data "8 word"

type_synonym bus = "8 word \<Rightarrow> bus_reply"

definition newline :: char where
  "newline = CHR 0x0A"

text \<open>\<^verbatim>\<open>read_register_value\<close> returns the byte as an \<^verbatim>\<open>int\<close>, a 32-bit word.\<close>

definition read_register_value :: "bus \<Rightarrow> 8 word \<Rightarrow> (32 word) or_exit" where
  "read_register_value b address =
     (case b address of
        WriteFailed \<Rightarrow> Inl (''Unable to query for register '' @ hex_alt address @ [newline])
      | ReadFailed \<Rightarrow> Inl (''Unable to read register '' @ hex_alt address @ [newline])
      | Data v \<Rightarrow> Inr (ucast v))"

text \<open>
  \<^verbatim>\<open>read_multi_value\<close>: both results are stored in \<^verbatim>\<open>uint16_t\<close> variables, the
  expression is computed in \<^verbatim>\<open>int\<close> after the integer promotions, and the result is
  converted to the return type \<^verbatim>\<open>uint16_t\<close>.
\<close>

definition read_multi_value :: "bus \<Rightarrow> 8 word \<Rightarrow> 8 word \<Rightarrow> (16 word) or_exit" where
  "read_multi_value b highaddress lowaddress =
     thenDo (read_register_value b highaddress) (\<lambda>h.
     thenDo (read_register_value b lowaddress) (\<lambda>l.
       let highvalue = (ucast h :: 16 word);
           lowvalue = (ucast l :: 16 word)
       in Inr (ucast (push_bit 4 (ucast highvalue :: 32 word)
                      OR (ucast lowvalue AND 0xF)))))"

section \<open>The register decoder\<close>

text \<open>
  \<^verbatim>\<open>gather_chart_data\<close> is a sequence of blocks, and each block of statements is a
  function here, named after what it decodes; \<open>gather_chart_data\<close> below puts them
  together in the order of the source, with the tests on \<^verbatim>\<open>power_status\<close> that guard
  three of them.

  Lines 252 to 262, the block guarded by bit \<^verbatim>\<open>0x80\<close> of \<^verbatim>\<open>charge_ctl\<close>. The arithmetic
  is on \<^verbatim>\<open>uint16_t\<close> values that stay below \<open>2 ^ 16\<close>.
\<close>

definition decode_charge_limits :: "8 word \<Rightarrow> store \<Rightarrow> store" where
  "decode_charge_limits charge_ctl st =
     (if charge_ctl AND 0x80 \<noteq> 0 then
        let charge_current_limit = (ucast (charge_ctl AND 0xF) :: 16 word) * 100 + 300;
            st = save_data_uint16 st chargelimit charge_current_limit;
            charge_termination_limit = charge_current_limit div 10;
            charge_termination_limit =
              (if charge_ctl AND 0x10 \<noteq> 0
               then charge_termination_limit + drop_bit 1 charge_termination_limit
               else charge_termination_limit)
        in save_data_uint16 st chargeterm charge_termination_limit
      else st)"

text \<open>
  Lines 265 to 275, the body of the first block guarded by bit \<^verbatim>\<open>0x20\<close> of
  \<^verbatim>\<open>power_status\<close>. The two reads inside the expression for \<^verbatim>\<open>bat_discharge\<close> are
  taken from left to right.
\<close>

definition decode_battery :: "platform \<Rightarrow> bus \<Rightarrow> store \<Rightarrow> store or_exit" where
  "decode_battery pf b st =
     thenDo (read_multi_value b 0x7A 0x7B) (\<lambda>raw.
     let bat_charge = f_div pf (float_of_uint16 raw) const_2_0f;
         st = save_data_float st batcharge bat_charge in
     thenDo (read_register_value b 0x7C) (\<lambda>hi.
     thenDo (read_register_value b 0x7D) (\<lambda>lo.
     let bat_discharge = (ucast (push_bit 5 hi OR (lo AND 0x1F)) :: 16 word);
         st = save_data_uint16 st batdischarge bat_discharge in
     thenDo (read_register_value b 0xB9) (\<lambda>r.
     let bat_gauge = (ucast (r AND 0x7F) :: 8 word);
         st = save_data_uint8 st batlevel bat_gauge in
     thenDo (read_multi_value b 0x78 0x79) (\<lambda>raw.
     let bat_voltage = f_mul pf (float_of_uint16 raw) const_1_1f
     in Inr (save_data_float st batvoltage bat_voltage))))))"

text \<open>Lines 279 to 283, the body of the block guarded by bit \<^verbatim>\<open>0x80\<close>.\<close>

definition decode_acin :: "platform \<Rightarrow> bus \<Rightarrow> store \<Rightarrow> store or_exit" where
  "decode_acin pf b st =
     thenDo (read_multi_value b 0x56 0x57) (\<lambda>raw.
     let acin_voltage = f_mul pf (float_of_uint16 raw) const_1_7f;
         st = save_data_float st acinvoltage acin_voltage in
     thenDo (read_multi_value b 0x58 0x59) (\<lambda>raw.
     let acin_current = f_mul pf (float_of_uint16 raw) const_0_625f
     in Inr (save_data_float st acincurrent acin_current)))"

text \<open>Lines 287 to 291, the body of the second block guarded by bit \<^verbatim>\<open>0x20\<close>.\<close>

definition decode_vbus :: "platform \<Rightarrow> bus \<Rightarrow> store \<Rightarrow> store or_exit" where
  "decode_vbus pf b st =
     thenDo (read_multi_value b 0x5A 0x5B) (\<lambda>raw.
     let vbus_voltage = f_mul pf (float_of_uint16 raw) const_1_7f;
         st = save_data_float st vbusvoltage vbus_voltage in
     thenDo (read_multi_value b 0x5C 0x5D) (\<lambda>raw.
     let vbus_current = f_mul pf (float_of_uint16 raw) const_0_375f
     in Inr (save_data_float st vbuscurrent vbus_current)))"

text \<open>
  Lines 295 to 304, the two blocks that follow the read of register \<^verbatim>\<open>0x30\<close>. The
  limit is computed in \<^verbatim>\<open>int\<close> and stored in a \<^verbatim>\<open>uint16_t\<close> variable, which
  \<^verbatim>\<open>save_data_float\<close> receives converted to \<^verbatim>\<open>float\<close>.
\<close>

definition targets :: "16 word list" where
  "targets = [900, 500, 100]"

definition decode_vbus_limits :: "8 word \<Rightarrow> store \<Rightarrow> store" where
  "decode_vbus_limits vbus_ipsout st =
     (let st = (if vbus_ipsout AND 0x40 \<noteq> 0 then
                  let vbus_voltage_limit =
                        (ucast (drop_bit 3 (ucast vbus_ipsout :: 32 word) * 100 + 4000) :: 16 word)
                  in save_data_float st vbusvoltagelimit (float_of_uint16 vbus_voltage_limit)
                else st)
      in if (ucast vbus_ipsout :: 32 word) AND 0x3 < 3 then
           let vbus_current_limit = targets ! unat (vbus_ipsout AND 0x3)
           in save_data_uint16 st vbuscurrentlimit vbus_current_limit
         else st)"

text \<open>
  The whole function. The store it starts from is the global state left by the
  previous cycle.
\<close>

definition gather_chart_data :: "platform \<Rightarrow> bus \<Rightarrow> store \<Rightarrow> store or_exit" where
  "gather_chart_data pf b st0 =
    (let st = st0\<lparr>gData := (\<lambda>_. 0), gIsValid := 0\<rparr> in
     thenDo (read_register_value b 0x01) (\<lambda>r.
     let power_status = (ucast r :: 8 word) in
     thenDo (read_register_value b 0x33) (\<lambda>r.
     let charge_ctl = (ucast r :: 8 word) in
     thenDo (read_multi_value b 0x5E 0x5F) (\<lambda>raw.
     let temp = d_to_f pf (d_sub pf (d_mul pf (double_of_uint16 raw) const_0_18) const_228_46);
         st = save_data_float st internaltemp temp;
         st = decode_charge_limits charge_ctl st in
     thenDo (if power_status AND 0x20 \<noteq> 0 then decode_battery pf b st else Inr st) (\<lambda>st.
     thenDo (if power_status AND 0x80 \<noteq> 0 then decode_acin pf b st else Inr st) (\<lambda>st.
     thenDo (if power_status AND 0x20 \<noteq> 0 then decode_vbus pf b st else Inr st) (\<lambda>st.
     thenDo (read_register_value b 0x30) (\<lambda>r.
     let vbus_ipsout = (ucast r :: 8 word)
     in Inr (decode_vbus_limits vbus_ipsout st)))))))))"

section \<open>The emitter\<close>

text \<open>
  A line written to the standard output, by the \<^verbatim>\<open>printf\<close> calls that produce it:
  \<^verbatim>\<open>"CHART %s %s\n"\<close>, \<^verbatim>\<open>"DIMENSION %s %s\n"\<close>, \<^verbatim>\<open>"BEGIN %s"\<close> followed by either
  \<^verbatim>\<open>" %" PRIu64 "\n"\<close> or \<^verbatim>\<open>"\n"\<close>, \<^verbatim>\<open>"SET %s = %s\n"\<close> and \<^verbatim>\<open>"END\n"\<close>. The optional
  argument of \<open>BeginLine\<close> is the number printed after the chart name.
\<close>

datatype line =
    ChartLine string string
  | DimensionLine string string
  | BeginLine string "64 word option"
  | SetLine string string
  | EndLine

fun render_line :: "line \<Rightarrow> string" where
  "render_line (ChartLine name properties) =
     ''CHART '' @ name @ '' '' @ properties @ [newline]"
| "render_line (DimensionLine name properties) =
     ''DIMENSION '' @ name @ '' '' @ properties @ [newline]"
| "render_line (BeginLine name None) = ''BEGIN '' @ name @ [newline]"
| "render_line (BeginLine name (Some delayus)) =
     ''BEGIN '' @ name @ '' '' @ dec (unat delayus) @ [newline]"
| "render_line (SetLine name text) = ''SET '' @ name @ '' = '' @ text @ [newline]"
| "render_line EndLine = ''END'' @ [newline]"

text \<open>
  \<^verbatim>\<open>print_charts_preamble\<close>: the inner loop over the \<^verbatim>\<open>MAX_CHART_DIMENSIONS\<close> slots of
  one chart, the outer loop over the charts of the table.
\<close>

fun preamble_dimensions :: "Dimensions option list \<Rightarrow> line list" where
  "preamble_dimensions [] = []"
| "preamble_dimensions (None # slots) = preamble_dimensions slots"
| "preamble_dimensions (Some targetindex # slots) =
     DimensionLine (Name (gDimensionDefinitions targetindex))
                   (Properties (gDimensionDefinitions targetindex))
     # preamble_dimensions slots"

fun preamble_charts :: "ChartDefinition list \<Rightarrow> line list" where
  "preamble_charts [] = []"
| "preamble_charts (chart # charts) =
     ChartLine (ChartName chart) (ChartProperties chart)
     # preamble_dimensions (ChartDimensions chart) @ preamble_charts charts"

definition print_charts_preamble :: "line list" where
  "print_charts_preamble = preamble_charts gChartDefinitions"

text \<open>\<^verbatim>\<open>print_chart_data\<close>, with the same two loops.\<close>

fun data_dimensions :: "platform \<Rightarrow> store \<Rightarrow> Dimensions option list \<Rightarrow> line list" where
  "data_dimensions pf st [] = []"
| "data_dimensions pf st (None # slots) = data_dimensions pf st slots"
| "data_dimensions pf st (Some targetindex # slots) =
     SetLine (Name (gDimensionDefinitions targetindex)) (format_data_value pf st targetindex)
     # data_dimensions pf st slots"

fun data_charts :: "platform \<Rightarrow> store \<Rightarrow> 64 word \<Rightarrow> ChartDefinition list \<Rightarrow> line list" where
  "data_charts pf st delayus [] = []"
| "data_charts pf st delayus (chart # charts) =
     BeginLine (ChartName chart) (if delayus \<noteq> 0 then Some delayus else None)
     # data_dimensions pf st (ChartDimensions chart)
     @ [EndLine]
     @ data_charts pf st delayus charts"

definition print_chart_data :: "platform \<Rightarrow> store \<Rightarrow> 64 word \<Rightarrow> line list" where
  "print_chart_data pf st delayus = data_charts pf st delayus gChartDefinitions"

section \<open>The process\<close>

text \<open>
  What the process does to the outside, in order: it opens the bus device, selects the
  slave address, writes registers, sleeps, writes lines to the standard output and
  flushes it, writes a diagnostic to the error stream, and exits with a status. The
  argument of \<open>Usleep\<close> is the value of the argument expression of the call. Register
  queries leave the device as it is and are not recorded; all of them follow \<open>OpenBus\<close>.
\<close>

datatype event =
    OpenBus
  | Ioctl
  | RegWrite "8 word" "8 word"
  | Usleep "64 word"
  | Stdout line
  | Flush
  | Stderr string
  | Exit int

text \<open>
  A step that records events and may end the process: the events so far, and either
  the diagnostic of the exit or the result.
\<close>

type_synonym 'a traced = "event list \<times> 'a or_exit"

definition andThen :: "'a traced \<Rightarrow> ('a \<Rightarrow> 'b traced) \<Rightarrow> 'b traced" where
  "andThen m f =
     (case m of
        (evs, Inl msg) \<Rightarrow> (evs, Inl msg)
      | (evs, Inr x) \<Rightarrow> (case f x of (evs', r) \<Rightarrow> (evs @ evs', r)))"

text \<open>
  The environment of the start-up: the results of \<^verbatim>\<open>open\<close> and \<^verbatim>\<open>ioctl\<close>, what the
  registers answer while the converter is enabled, and the registers whose write fails.
\<close>

record env =
  open_result :: int
  ioctl_result :: int
  adc_bus :: bus
  write_fails :: "8 word \<Rightarrow> bool"

definition write_register_value :: "env \<Rightarrow> 8 word \<Rightarrow> 8 word \<Rightarrow> unit traced" where
  "write_register_value e address v =
     (if write_fails e address
      then ([], Inl (''Unable to write register '' @ hex_alt address @ [newline]))
      else ([RegWrite address v], Inr ()))"

definition enable_adc :: "env \<Rightarrow> int traced" where
  "enable_adc e =
     (if ioctl_result e < 0 then ([Ioctl], Inr (ioctl_result e))
      else
        andThen ([Ioctl], read_register_value (adc_bus e) 0x82) (\<lambda>r.
        let v = (ucast r :: 8 word) in
        andThen (if v AND 0xCC \<noteq> 0xCC
                 then andThen (write_register_value e 0x82 (v OR 0xCC)) (\<lambda>_. ([], Inr True))
                 else ([], Inr False)) (\<lambda>wait.
        andThen ([], read_register_value (adc_bus e) 0x83) (\<lambda>r.
        let v = (ucast r :: 8 word) in
        andThen (if v AND 0x80 \<noteq> 0x80
                 then andThen (write_register_value e 0x83 (v OR 0x80)) (\<lambda>_. ([], Inr True))
                 else ([], Inr wait)) (\<lambda>wait.
        (if wait then [Usleep 40000] else [], Inr 0))))))"

text \<open>
  \<^verbatim>\<open>atoi\<close>: white space is skipped, then an optional sign and the leading decimal digits
  are read; the result is 0 when there is no digit. For a digit string beyond the range
  of \<^verbatim>\<open>int\<close> the C library's result is not defined; here it is the number written.
\<close>

definition isspace :: "char \<Rightarrow> bool" where
  "isspace c \<longleftrightarrow> c \<in> set [CHR '' '', CHR 0x09, CHR 0x0A, CHR 0x0B, CHR 0x0C, CHR 0x0D]"

definition isdigit :: "char \<Rightarrow> bool" where
  "isdigit c \<longleftrightarrow> c \<in> set ''0123456789''"

definition digit_value :: "char \<Rightarrow> int" where
  "digit_value c = int (of_char c) - 48"

fun atoi_digits :: "int \<Rightarrow> string \<Rightarrow> int" where
  "atoi_digits acc [] = acc"
| "atoi_digits acc (c # cs) =
     (if isdigit c then atoi_digits (acc * 10 + digit_value c) cs else acc)"

definition atoi :: "string \<Rightarrow> int" where
  "atoi s =
     (case dropWhile isspace s of
        [] \<Rightarrow> 0
      | c # cs \<Rightarrow>
          if c = CHR ''-'' then - atoi_digits 0 cs
          else if c = CHR ''+'' then atoi_digits 0 cs
          else atoi_digits 0 (c # cs))"

text \<open>
  The first block of \<^verbatim>\<open>main\<close>: the optional argument. The result of \<^verbatim>\<open>atoi\<close> is stored
  in the \<^verbatim>\<open>uint16_t\<close> variable \<^verbatim>\<open>gUpdateEvery\<close> before it is compared.
\<close>

definition parse_update_every :: "string list \<Rightarrow> (16 word) or_exit" where
  "parse_update_every argv =
     (if length argv \<ge> 2 then
        let gUpdateEvery = (word_of_int (atoi (argv ! 1)) :: 16 word) in
        if gUpdateEvery < 1 \<or> gUpdateEvery > 360
        then Inl (''Usage: '' @ argv ! 0 @ '' [update_frequency]'' @ [newline])
        else Inr gUpdateEvery
      else Inr 1)"

text \<open>
  The start-up of \<^verbatim>\<open>main\<close>, up to and including the preamble; it yields
  \<^verbatim>\<open>gUpdateEvery\<close>. Each \<^verbatim>\<open>return 1\<close> after a diagnostic is an exit with that diagnostic.
\<close>

definition startup :: "string list \<Rightarrow> env \<Rightarrow> (16 word) traced" where
  "startup argv e =
     andThen ([], parse_update_every argv) (\<lambda>gUpdateEvery.
     andThen (if open_result e < 0
              then ([OpenBus],
                    Inl (''Unable to open a handle to the I2C bus'' @ [newline]))
              else ([OpenBus], Inr ())) (\<lambda>_.
     andThen (enable_adc e) (\<lambda>err.
     andThen (if err < 0
              then ([], Inl (''Unable to communicate with AXP209'' @ [newline]))
              else ([], Inr ())) (\<lambda>_.
     (map Stdout print_charts_preamble @ [Flush], Inr gUpdateEvery)))))"

text \<open>
  One iteration of the main loop meets two clock readings and one snapshot of the
  registers. \<open>cycle_start\<close> and \<open>cycle_end\<close> are the values of
  \<^verbatim>\<open>(uint64_t)(tv_sec * 1000000L + tv_nsec / 1000L)\<close> for the two readings.
\<close>

record cycle =
  cycle_start :: "64 word"
  cycle_bus :: bus
  cycle_end :: "64 word"

text \<open>
  The loop \<^verbatim>\<open>while (true)\<close> never ends by itself. The list of cycles is the part of
  the run that is observed: the events of the first \<open>length cycles\<close> iterations, or
  fewer when an iteration exits.
\<close>

fun main_loop :: "platform \<Rightarrow> 16 word \<Rightarrow> cycle list \<Rightarrow> 64 word \<Rightarrow> store \<Rightarrow> event list" where
  "main_loop pf gUpdateEvery [] endtimeus st = []"
| "main_loop pf gUpdateEvery (c # cs) endtimeus st =
     (let starttimeus = cycle_start c;
          delta = (if endtimeus \<noteq> 0 then starttimeus - endtimeus else 0)
      in case gather_chart_data pf (cycle_bus c) st of
           Inl msg \<Rightarrow> [Stderr msg, Exit 1]
         | Inr st' \<Rightarrow>
             map Stdout (print_chart_data pf st' delta) @ [Flush] @
             (let endtimeus' = cycle_end c;
                  delta' = endtimeus' - starttimeus
              in Usleep ((ucast gUpdateEvery :: 64 word) * 1000000 - delta')
                 # main_loop pf gUpdateEvery cs endtimeus' st'))"

text \<open>The global variables start as zero.\<close>

definition initial_store :: store where
  "initial_store = \<lparr>gData = (\<lambda>_. 0), gIsValid = 0\<rparr>"

definition main :: "platform \<Rightarrow> string list \<Rightarrow> env \<Rightarrow> cycle list \<Rightarrow> event list" where
  "main pf argv e cycles =
     (case startup argv e of
        (evs, Inl msg) \<Rightarrow> evs @ [Stderr msg, Exit 1]
      | (evs, Inr gUpdateEvery) \<Rightarrow> evs @ main_loop pf gUpdateEvery cycles 0 initial_store)"

section \<open>Observations and concrete inputs\<close>

fun stdout_lines :: "event list \<Rightarrow> line list" where
  "stdout_lines [] = []"
| "stdout_lines (Stdout l # evs) = l # stdout_lines evs"
| "stdout_lines (_ # evs) = stdout_lines evs"

fun usleeps :: "event list \<Rightarrow> 64 word list" where
  "usleeps [] = []"
| "usleeps (Usleep d # evs) = d # usleeps evs"
| "usleeps (_ # evs) = usleeps evs"

fun is_header :: "line \<Rightarrow> bool" where
  "is_header (ChartLine _ _) = True"
| "is_header (DimensionLine _ _) = True"
| "is_header _ = False"

text \<open>The numbers after the chart names of the \<^verbatim>\<open>BEGIN\<close> lines, in order.\<close>

fun begin_hints :: "line list \<Rightarrow> 64 word option list" where
  "begin_hints [] = []"
| "begin_hints (BeginLine _ hint # ls) = hint # begin_hints ls"
| "begin_hints (_ # ls) = begin_hints ls"

text \<open>The chart and dimension names of the lines, in order.\<close>

fun line_ids :: "line list \<Rightarrow> string list" where
  "line_ids [] = []"
| "line_ids (ChartLine name _ # ls) = name # line_ids ls"
| "line_ids (DimensionLine name _ # ls) = name # line_ids ls"
| "line_ids (BeginLine name _ # ls) = name # line_ids ls"
| "line_ids (SetLine name _ # ls) = name # line_ids ls"
| "line_ids (EndLine # ls) = line_ids ls"

text \<open>The order of the catalog: every chart name, followed by the names of its members.\<close>

definition members :: "ChartDefinition \<Rightarrow> Dimensions list" where
  "members chart = concat (map (\<lambda>slot. case slot of None \<Rightarrow> [] | Some d \<Rightarrow> [d])
                               (ChartDimensions chart))"

definition catalog_order :: "string list" where
  "catalog_order =
     concat (map (\<lambda>chart. ChartName chart # map (\<lambda>d. Name (gDimensionDefinitions d)) (members chart))
                 gChartDefinitions)"

text \<open>
  Inputs for concrete runs: a platform whose arithmetic returns zero and whose
  \<^verbatim>\<open>%f\<close> conversion prints \<^verbatim>\<open>0.0\<close>, a device on which every register holds the same
  byte, and (further down) an environment in which the start-up succeeds and a device
  that answers \<^verbatim>\<open>0x12\<close> for register \<^verbatim>\<open>0x5E\<close> and \<^verbatim>\<open>0x3F\<close> for the others.
\<close>

definition stub_platform :: platform where
  "stub_platform =
     \<lparr>d_mul = (\<lambda>_ _. 0), d_sub = (\<lambda>_ _. 0), d_to_f = (\<lambda>_. 0),
      f_mul = (\<lambda>_ _. 0), f_div = (\<lambda>_ _. 0), sprintf_float = (\<lambda>_ _. ''0.0'')\<rparr>"

definition all_registers :: "8 word \<Rightarrow> bus" where
  "all_registers v = (\<lambda>_. Data v)"

text \<open>
  Cycles for concrete runs, on a device whose registers all hold zero: one that takes
  1000001 microseconds, and two successive ones that take 1000 microseconds each, the
  second starting 999500 microseconds after the first has ended.
\<close>

definition overrun_cycle :: cycle where
  "overrun_cycle = \<lparr>cycle_start = 5000000, cycle_bus = all_registers 0, cycle_end = 6000001\<rparr>"

definition first_cycle :: cycle where
  "first_cycle = \<lparr>cycle_start = 1000, cycle_bus = all_registers 0, cycle_end = 2000\<rparr>"

definition second_cycle :: cycle where
  "second_cycle = \<lparr>cycle_start = 1001500, cycle_bus = all_registers 0, cycle_end = 1002500\<rparr>"

text \<open>
  A store as a previous cycle may leave it: every validity flag set, every value non-zero.
\<close>

definition stale_store :: store where
  "stale_store = \<lparr>gData = (\<lambda>_. 0xFFFFFFFF), gIsValid = 0x1FFF\<rparr>"

definition reassembly_bus :: bus where
  "reassembly_bus = (\<lambda>a. if a = 0x5E then Data 0x12 else Data 0x3F)"

definition good_env :: env where
  "good_env = \<lparr>open_result = 3, ioctl_result = 0, adc_bus = all_registers 0xFF,
               write_fails = (\<lambda>_. False)\<rparr>"

section \<open>Facts about the bus and the store\<close>

lemma thenDo_Inr_iff: "thenDo m f = Inr y \<longleftrightarrow> (\<exists>x. m = Inr x \<and> f x = Inr y)"
  by (cases m) (simp_all add: thenDo_def)

lemma read_register_value_Inr_iff:
  "read_register_value b a = Inr r \<longleftrightarrow> (\<exists>v. b a = Data v \<and> r = ucast v)"
  by (auto simp: read_register_value_def split: bus_reply.splits)

lemma reassemble_promoted:
  "(ucast (push_bit 4 (ucast (ucast (ucast (h :: 8 word) :: 32 word) :: 16 word) :: 32 word)
           OR (ucast (ucast (ucast (l :: 8 word) :: 32 word) :: 16 word) AND 0xF)) :: 16 word)
   = push_bit 4 (ucast h) OR (ucast l AND 0xF)"
  by (rule bit_word_eqI) (auto simp: bit_simps)

lemma read_multi_value_Inr_iff:
  "read_multi_value b ha la = Inr w \<longleftrightarrow>
     (\<exists>h l. b ha = Data h \<and> b la = Data l \<and> w = push_bit 4 (ucast h) OR (ucast l AND 0xF))"
  by (auto simp: read_multi_value_def thenDo_Inr_iff read_register_value_Inr_iff Let_def
        reassemble_promoted)

lemma dim_index_less: "dim_index d < 32"
  by (cases d) simp_all

lemma dim_index_eq_iff: "dim_index i = dim_index j \<longleftrightarrow> i = j"
  by (cases i; cases j; simp)

lemma is_valid_bit: "is_valid st d \<longleftrightarrow> bit (gIsValid st) (dim_index d)"
  by (simp add: is_valid_def and_exp_eq_0_iff_not_bit)

lemma is_valid_save_data_float:
  "is_valid (save_data_float st i v) j \<longleftrightarrow> i = j \<or> is_valid st j"
  using dim_index_less [of j]
  by (auto simp: is_valid_bit save_data_float_def bit_simps dim_index_eq_iff)

lemma is_valid_save_data_uint8:
  "is_valid (save_data_uint8 st i v) j \<longleftrightarrow> i = j \<or> is_valid st j"
  using dim_index_less [of j]
  by (auto simp: is_valid_bit save_data_uint8_def bit_simps dim_index_eq_iff)

lemma is_valid_save_data_uint16:
  "is_valid (save_data_uint16 st i v) j \<longleftrightarrow> i = j \<or> is_valid st j"
  using dim_index_less [of j]
  by (auto simp: is_valid_bit save_data_uint16_def bit_simps dim_index_eq_iff)

lemma is_valid_reset: "\<not> is_valid (st\<lparr>gData := g, gIsValid := 0\<rparr>) j"
  by (simp add: is_valid_def)

lemma gData_save_data_float:
  "gData (save_data_float st i v) j = (if j = i then v else gData st j)"
  by (simp add: save_data_float_def set_asFloat_def)

lemma gData_save_data_uint8:
  "gData (save_data_uint8 st i v) j = (if j = i then set_asUint8 (gData st i) v else gData st j)"
  by (simp add: save_data_uint8_def)

lemma gData_save_data_uint16:
  "gData (save_data_uint16 st i v) j = (if j = i then set_asUint16 (gData st i) v else gData st j)"
  by (simp add: save_data_uint16_def)

lemma asUint16_set_asUint16: "asUint16 (set_asUint16 v x) = x"
proof -
  have m: "(0xFFFF :: 32 word) = mask 16"
    by (simp add: mask_eq_exp_minus_1)
  show ?thesis
    unfolding asUint16_def set_asUint16_def m
    by (rule bit_word_eqI) (auto simp: bit_simps)
qed

lemma asUint8_set_asUint8: "asUint8 (set_asUint8 v x) = x"
proof -
  have m: "(0xFF :: 32 word) = mask 8"
    by (simp add: mask_eq_exp_minus_1)
  show ?thesis
    unfolding asUint8_def set_asUint8_def m
    by (rule bit_word_eqI) (auto simp: bit_simps)
qed

lemmas store_simps = is_valid_save_data_float is_valid_save_data_uint8 is_valid_save_data_uint16
  is_valid_reset gData_save_data_float gData_save_data_uint8 gData_save_data_uint16
  asUint16_set_asUint16 asUint8_set_asUint8

lemma ucast_8_32_8: "(ucast (ucast (v :: 8 word) :: 32 word) :: 8 word) = v"
  by (rule bit_word_eqI) (auto simp: bit_simps)

lemma decode_battery_frame:
  assumes "(if c then decode_battery pf b s else Inr s) = Inr x"
    and "d \<notin> {batcharge, batdischarge, batlevel, batvoltage}"
  shows "is_valid x d = is_valid s d \<and> gData x d = gData s d"
  using assms
  by (auto simp: decode_battery_def thenDo_Inr_iff Let_def store_simps split: if_splits)

lemma decode_acin_frame:
  assumes "(if c then decode_acin pf b s else Inr s) = Inr x"
    and "d \<notin> {acinvoltage, acincurrent}"
  shows "is_valid x d = is_valid s d \<and> gData x d = gData s d"
  using assms
  by (auto simp: decode_acin_def thenDo_Inr_iff Let_def store_simps split: if_splits)

lemma decode_vbus_frame:
  assumes "(if c then decode_vbus pf b s else Inr s) = Inr x"
    and "d \<notin> {vbusvoltage, vbuscurrent}"
  shows "is_valid x d = is_valid s d \<and> gData x d = gData s d"
  using assms
  by (auto simp: decode_vbus_def thenDo_Inr_iff Let_def store_simps split: if_splits)

lemma decode_charge_limits_frame:
  assumes "d \<notin> {chargelimit, chargeterm}"
  shows "is_valid (decode_charge_limits cc s) d = is_valid s d \<and>
         gData (decode_charge_limits cc s) d = gData s d"
  using assms by (auto simp: decode_charge_limits_def Let_def store_simps)

lemma decode_vbus_limits_frame:
  assumes "d \<notin> {vbusvoltagelimit, vbuscurrentlimit}"
  shows "is_valid (decode_vbus_limits v s) d = is_valid s d \<and>
         gData (decode_vbus_limits v s) d = gData s d"
  using assms by (auto simp: decode_vbus_limits_def Let_def store_simps)

lemma thenDo_InrE:
  assumes "thenDo m f = Inr y"
  obtains x where "m = Inr x" and "f x = Inr y"
  using assms by (auto simp: thenDo_Inr_iff)

lemma gather_chart_data_Inr:
  assumes "gather_chart_data pf b st0 = Inr st"
  shows "\<exists>ps cc ips t s2 s3 s4.
           b 0x01 = Data ps \<and> b 0x33 = Data cc \<and> b 0x30 = Data ips \<and>
           (if ps AND 0x20 \<noteq> 0
            then decode_battery pf b
                   (decode_charge_limits cc
                     (save_data_float (st0\<lparr>gData := (\<lambda>_. 0), gIsValid := 0\<rparr>) internaltemp t))
            else Inr (decode_charge_limits cc
                     (save_data_float (st0\<lparr>gData := (\<lambda>_. 0), gIsValid := 0\<rparr>) internaltemp t)))
             = Inr s2 \<and>
           (if ps AND 0x80 \<noteq> 0 then decode_acin pf b s2 else Inr s2) = Inr s3 \<and>
           (if ps AND 0x20 \<noteq> 0 then decode_vbus pf b s3 else Inr s3) = Inr s4 \<and>
           st = decode_vbus_limits ips s4"
  using assms unfolding gather_chart_data_def Let_def
  apply (elim thenDo_InrE)
  apply (simp only: read_register_value_Inr_iff)
  apply (elim exE conjE)
  apply (simp only: ucast_8_32_8 sum.inject)
  apply (intro exI conjI)
        apply (rule refl | assumption | erule sym)+
  done

lemma gather_chart_data_indep:
  "gather_chart_data pf b st1 = gather_chart_data pf b st2"
proof -
  have "st1\<lparr>gData := (\<lambda>_. 0), gIsValid := 0\<rparr> = st2\<lparr>gData := (\<lambda>_. 0), gIsValid := 0\<rparr>"
    by (cases st1, cases st2) simp
  then show ?thesis
    unfolding gather_chart_data_def by (simp only:)
qed

lemma and3_cases: "(v :: 8 word) AND 3 = 0 \<or> v AND 3 = 1 \<or> v AND 3 = 2 \<or> v AND 3 = 3"
proof -
  have "unat (v AND 3) \<le> unat (3 :: 8 word)"
    by (rule word_and_le1 [THEN word_le_nat_alt [THEN iffD1]])
  then show ?thesis
    by (simp add: word_unat_eq_iff) arith
qed

lemma ucast_and3: "(ucast (v :: 8 word) :: 32 word) AND 3 = ucast (v AND 3)"
  by (rule bit_word_eqI) (auto simp: bit_simps dest: bit_imp_le_length)

lemma gather_chart_data_InrE:
  assumes "gather_chart_data pf b st0 = Inr st"
  obtains ps cc ips t s2 s3 s4 where
    "b 0x01 = Data ps" and "b 0x33 = Data cc" and "b 0x30 = Data ips"
    and "(if ps AND 0x20 \<noteq> 0
          then decode_battery pf b (decode_charge_limits cc
                 (save_data_float (st0\<lparr>gData := (\<lambda>_. 0), gIsValid := 0\<rparr>) internaltemp t))
          else Inr (decode_charge_limits cc
                 (save_data_float (st0\<lparr>gData := (\<lambda>_. 0), gIsValid := 0\<rparr>) internaltemp t))) = Inr s2"
    and "(if ps AND 0x80 \<noteq> 0 then decode_acin pf b s2 else Inr s2) = Inr s3"
    and "(if ps AND 0x20 \<noteq> 0 then decode_vbus pf b s3 else Inr s3) = Inr s4"
    and "st = decode_vbus_limits ips s4"
  using gather_chart_data_Inr [OF assms] by blast

lemma thenDo_total:
  assumes "\<exists>x. m = Inr x" and "\<And>x. \<exists>y. f x = Inr y"
  shows "\<exists>y. thenDo m f = Inr y"
  using assms by (auto simp: thenDo_def)

lemma gated_total: "\<exists>x. m = Inr x \<Longrightarrow> \<exists>x. (if c then m else Inr s) = Inr x"
  by simp

lemma read_register_value_total:
  "(\<And>a. \<exists>v. b a = Data v) \<Longrightarrow> \<exists>r. read_register_value b a = Inr r"
  by (simp add: read_register_value_Inr_iff)

lemma read_multi_value_total:
  assumes "\<And>a. \<exists>v. b a = Data v"
  shows "\<exists>r. read_multi_value b ha la = Inr r"
  using assms [of ha] assms [of la] by (auto simp: read_multi_value_Inr_iff)

lemma decode_battery_total:
  assumes "\<And>a. \<exists>v. b a = Data v"
  shows "\<exists>x. decode_battery pf b s = Inr x"
  unfolding decode_battery_def Let_def
  by (intro thenDo_total read_register_value_total read_multi_value_total assms) simp

lemma decode_acin_total:
  assumes "\<And>a. \<exists>v. b a = Data v"
  shows "\<exists>x. decode_acin pf b s = Inr x"
  unfolding decode_acin_def Let_def
  by (intro thenDo_total read_register_value_total read_multi_value_total assms) simp

lemma decode_vbus_total:
  assumes "\<And>a. \<exists>v. b a = Data v"
  shows "\<exists>x. decode_vbus pf b s = Inr x"
  unfolding decode_vbus_def Let_def
  by (intro thenDo_total read_register_value_total read_multi_value_total assms) simp

lemma gather_chart_data_total:
  assumes "\<And>a. \<exists>v. b a = Data v"
  shows "\<exists>st. gather_chart_data pf b st0 = Inr st"
  unfolding gather_chart_data_def Let_def
  by (intro thenDo_total gated_total decode_battery_total decode_acin_total decode_vbus_total
        read_register_value_total read_multi_value_total assms) simp

lemma gather_all_registers:
  "\<exists>st. gather_chart_data pf (all_registers v) st0 = Inr st"
  by (rule gather_chart_data_total) (simp add: all_registers_def)

lemma unat_byte: "unat (x :: 8 word) < 256"
proof -
  have "unat x < 2 ^ LENGTH(8)"
    by (rule unsigned_less)
  then show ?thesis by simp
qed

lemma unat_ucast_8_16: "unat (ucast (x :: 8 word) :: 16 word) = unat x"
  using unat_byte [of x] by (simp add: unsigned_ucast_eq take_bit_nat_eq_self)

lemma reassemble_unat:
  "unat (push_bit 4 (ucast (h :: 8 word) :: 16 word) OR (ucast (l :: 8 word) AND 0xF))
   = unat h * 16 + unat l mod 16"
proof -
  have m: "(0xF :: 16 word) = mask 4"
    by (simp add: mask_eq_exp_minus_1)
  have lo: "unat (take_bit 4 (ucast l :: 16 word)) = unat l mod 16"
    by (simp add: take_bit_eq_mod unat_mod_distrib unat_ucast_8_16)
  have hi: "unat ((ucast h :: 16 word) * 16) = unat h * 16"
    using unat_byte [of h] by (simp add: unat_word_ariths unat_ucast_8_16)
  have "push_bit 4 (ucast h :: 16 word) + take_bit 4 (ucast l)
        = push_bit 4 (ucast h) OR take_bit 4 (ucast l)"
    by (rule disjunctive_add) (auto simp: bit_simps)
  then have "unat (push_bit 4 (ucast h :: 16 word) OR take_bit 4 (ucast l))
        = unat ((ucast h :: 16 word) * 16 + take_bit 4 (ucast l))"
    by (simp add: push_bit_eq_mult)
  also have "\<dots> = unat h * 16 + unat l mod 16"
    using unat_byte [of h] by (simp add: unat_word_ariths(1) hi lo)
  finally show ?thesis
    by (simp add: m take_bit_eq_mask)
qed

lemma decode_charge_limits_set:
  assumes "c AND 0x80 \<noteq> 0"
  shows "is_valid (decode_charge_limits c s) chargelimit
       \<and> asUint16 (gData (decode_charge_limits c s) chargelimit)
           = ucast (c AND 0xF) * 100 + 300
       \<and> is_valid (decode_charge_limits c s) chargeterm
       \<and> asUint16 (gData (decode_charge_limits c s) chargeterm)
           = (if c AND 0x10 \<noteq> 0
              then (ucast (c AND 0xF) * 100 + 300) div 10
                   + drop_bit 1 ((ucast (c AND 0xF) * 100 + 300) div 10)
              else (ucast (c AND 0xF) * 100 + 300) div 10)"
  using assms by (simp add: decode_charge_limits_def Let_def store_simps)

lemma unat_low_nibble: "unat ((c :: 8 word) AND 0xF) \<le> 15"
proof -
  have "unat (c AND 15) \<le> unat (15 :: 8 word)"
    by (rule word_and_le1 [THEN word_le_nat_alt [THEN iffD1]])
  then show ?thesis by simp
qed

lemma unat_charge_current_limit:
  "unat ((ucast ((c :: 8 word) AND 0xF) :: 16 word) * 100 + 300) = unat (c AND 0xF) * 100 + 300"
  using unat_low_nibble [of c] by (simp add: unat_word_ariths unat_ucast_8_16)

lemma unat_charge_termination_limit:
  fixes l :: "16 word"
  assumes "unat l \<le> 1800"
  shows "unat (l div 10) = unat l div 10"
    and "unat (l div 10 + drop_bit 1 (l div 10)) = unat l div 10 + unat l div 10 div 2"
proof -
  show d: "unat (l div 10) = unat l div 10"
    by (simp add: unat_div_distrib)
  have "unat (drop_bit 1 (l div 10)) = unat l div 10 div 2"
    by (simp add: drop_bit_eq_div unat_div_distrib)
  with assms d show "unat (l div 10 + drop_bit 1 (l div 10)) = unat l div 10 + unat l div 10 div 2"
    by (simp add: unat_word_ariths(1) drop_bit_eq_div unat_div_distrib)
qed

lemma vbus_voltage_limit_float:
  assumes "gather_chart_data pf b st0 = Inr st" and "b 0x30 = Data v" and "v AND 0x40 \<noteq> 0"
  shows "is_valid st vbusvoltagelimit
       \<and> gData st vbusvoltagelimit
           = float_of_uint16 (ucast (drop_bit 3 (ucast v :: 32 word) * 100 + 4000))"
proof -
  from assms(1) obtain ps cc ips t s2 s3 s4 where
    "b 0x01 = Data ps" and "b 0x33 = Data cc" and r30: "b 0x30 = Data ips"
    and s2: "(if ps AND 0x20 \<noteq> 0
          then decode_battery pf b (decode_charge_limits cc
                 (save_data_float (st0\<lparr>gData := (\<lambda>_. 0), gIsValid := 0\<rparr>) internaltemp t))
          else Inr (decode_charge_limits cc
                 (save_data_float (st0\<lparr>gData := (\<lambda>_. 0), gIsValid := 0\<rparr>) internaltemp t))) = Inr s2"
    and s3: "(if ps AND 0x80 \<noteq> 0 then decode_acin pf b s2 else Inr s2) = Inr s3"
    and s4: "(if ps AND 0x20 \<noteq> 0 then decode_vbus pf b s3 else Inr s3) = Inr s4"
    and st: "st = decode_vbus_limits ips s4"
    by (rule gather_chart_data_InrE)
  from r30 assms(2) have "ips = v"
    by simp
  with assms(3) show ?thesis
    by (simp add: st decode_vbus_limits_def Let_def store_simps)
qed

lemma current_limit_test: "((ucast (v :: 8 word) :: 32 word) AND 3 < 3) = (v AND 3 \<noteq> 3)"
  using and3_cases [of v] by (auto simp: ucast_and3)

lemma is_valid_decode_charge_limits:
  "is_valid (decode_charge_limits cc s) d \<longleftrightarrow>
     (cc AND 0x80 \<noteq> 0 \<and> d \<in> {chargelimit, chargeterm}) \<or> is_valid s d"
  by (auto simp: decode_charge_limits_def Let_def store_simps)

lemma is_valid_decode_vbus_limits:
  "is_valid (decode_vbus_limits v s) d \<longleftrightarrow>
     (v AND 0x40 \<noteq> 0 \<and> d = vbusvoltagelimit) \<or> (v AND 3 \<noteq> 3 \<and> d = vbuscurrentlimit)
     \<or> is_valid s d"
  by (auto simp: decode_vbus_limits_def Let_def store_simps current_limit_test)

lemma is_valid_decode_battery:
  assumes "(if c then decode_battery pf b s else Inr s) = Inr x"
  shows "is_valid x d \<longleftrightarrow>
     (c \<and> d \<in> {batcharge, batdischarge, batlevel, batvoltage}) \<or> is_valid s d"
  using assms
  by (auto simp: decode_battery_def thenDo_Inr_iff Let_def store_simps split: if_splits)

lemma is_valid_decode_acin:
  assumes "(if c then decode_acin pf b s else Inr s) = Inr x"
  shows "is_valid x d \<longleftrightarrow> (c \<and> d \<in> {acinvoltage, acincurrent}) \<or> is_valid s d"
  using assms
  by (auto simp: decode_acin_def thenDo_Inr_iff Let_def store_simps split: if_splits)

lemma is_valid_decode_vbus:
  assumes "(if c then decode_vbus pf b s else Inr s) = Inr x"
  shows "is_valid x d \<longleftrightarrow> (c \<and> d \<in> {vbusvoltage, vbuscurrent}) \<or> is_valid s d"
  using assms
  by (auto simp: decode_vbus_def thenDo_Inr_iff Let_def store_simps split: if_splits)

lemma cleared_decode_charge_limits:
  assumes "\<forall>d. \<not> is_valid s d \<longrightarrow> gData s d = 0"
  shows "\<forall>d. \<not> is_valid (decode_charge_limits cc s) d \<longrightarrow> gData (decode_charge_limits cc s) d = 0"
  using assms by (auto simp: decode_charge_limits_def Let_def store_simps)

lemma cleared_decode_vbus_limits:
  assumes "\<forall>d. \<not> is_valid s d \<longrightarrow> gData s d = 0"
  shows "\<forall>d. \<not> is_valid (decode_vbus_limits v s) d \<longrightarrow> gData (decode_vbus_limits v s) d = 0"
  using assms by (auto simp: decode_vbus_limits_def Let_def store_simps)

lemma cleared_decode_battery:
  assumes "(if c then decode_battery pf b s else Inr s) = Inr x"
    and "\<forall>d. \<not> is_valid s d \<longrightarrow> gData s d = 0"
  shows "\<forall>d. \<not> is_valid x d \<longrightarrow> gData x d = 0"
  using assms
  by (auto simp: decode_battery_def thenDo_Inr_iff Let_def store_simps split: if_splits)

lemma cleared_decode_acin:
  assumes "(if c then decode_acin pf b s else Inr s) = Inr x"
    and "\<forall>d. \<not> is_valid s d \<longrightarrow> gData s d = 0"
  shows "\<forall>d. \<not> is_valid x d \<longrightarrow> gData x d = 0"
  using assms
  by (auto simp: decode_acin_def thenDo_Inr_iff Let_def store_simps split: if_splits)

lemma cleared_decode_vbus:
  assumes "(if c then decode_vbus pf b s else Inr s) = Inr x"
    and "\<forall>d. \<not> is_valid s d \<longrightarrow> gData s d = 0"
  shows "\<forall>d. \<not> is_valid x d \<longrightarrow> gData x d = 0"
  using assms
  by (auto simp: decode_vbus_def thenDo_Inr_iff Let_def store_simps split: if_splits)

lemma cleared_after_temperature:
  "\<forall>d. \<not> is_valid (save_data_float (st0\<lparr>gData := (\<lambda>_. 0), gIsValid := 0\<rparr>) internaltemp t) d
        \<longrightarrow> gData (save_data_float (st0\<lparr>gData := (\<lambda>_. 0), gIsValid := 0\<rparr>) internaltemp t) d = 0"
  by (auto simp: store_simps)

section \<open>Facts about the output\<close>

lemma stdout_lines_append: "stdout_lines (xs @ ys) = stdout_lines xs @ stdout_lines ys"
  by (induction xs rule: stdout_lines.induct) simp_all

lemma stdout_lines_map_Stdout: "stdout_lines (map Stdout ls) = ls"
  by (induction ls) simp_all

lemma usleeps_append: "usleeps (xs @ ys) = usleeps xs @ usleeps ys"
  by (induction xs rule: usleeps.induct) simp_all

lemma usleeps_map_Stdout: "usleeps (map Stdout ls) = []"
  by (induction ls) simp_all

lemma begin_hints_append: "begin_hints (xs @ ys) = begin_hints xs @ begin_hints ys"
  by (induction xs rule: begin_hints.induct) simp_all

lemma begin_hints_data_dimensions: "begin_hints (data_dimensions pf st slots) = []"
  by (induction slots rule: data_dimensions.induct) simp_all

lemma begin_hints_data_charts:
  "begin_hints (data_charts pf st d charts)
   = replicate (length charts) (if d \<noteq> 0 then Some d else None)"
  by (induction charts) (simp_all add: begin_hints_append begin_hints_data_dimensions)

lemma length_gChartDefinitions: "length gChartDefinitions = 8"
  by (simp add: gChartDefinitions_def)

lemma begin_hints_print_chart_data:
  "begin_hints (print_chart_data pf st d) = replicate 8 (if d \<noteq> 0 then Some d else None)"
  by (simp add: print_chart_data_def begin_hints_data_charts length_gChartDefinitions)

lemma is_header_preamble_dimensions: "l \<in> set (preamble_dimensions slots) \<Longrightarrow> is_header l"
  by (induction slots rule: preamble_dimensions.induct) auto

lemma is_header_preamble_charts: "l \<in> set (preamble_charts charts) \<Longrightarrow> is_header l"
  by (induction charts) (auto dest: is_header_preamble_dimensions)

lemma not_header_data_dimensions: "l \<in> set (data_dimensions pf st slots) \<Longrightarrow> \<not> is_header l"
  by (induction slots rule: data_dimensions.induct) auto

lemma not_header_data_charts: "l \<in> set (data_charts pf st d charts) \<Longrightarrow> \<not> is_header l"
  by (induction charts) (auto dest: not_header_data_dimensions)

lemma line_ids_append: "line_ids (xs @ ys) = line_ids xs @ line_ids ys"
  by (induction xs rule: line_ids.induct) simp_all

lemma members_Cons:
  "members (c\<lparr>ChartDimensions := None # slots\<rparr>) = members (c\<lparr>ChartDimensions := slots\<rparr>)"
  "members (c\<lparr>ChartDimensions := Some d # slots\<rparr>) = d # members (c\<lparr>ChartDimensions := slots\<rparr>)"
  by (simp_all add: members_def)

lemma line_ids_preamble_dimensions:
  "line_ids (preamble_dimensions slots)
   = map (\<lambda>d. Name (gDimensionDefinitions d))
         (concat (map (\<lambda>slot. case slot of None \<Rightarrow> [] | Some d \<Rightarrow> [d]) slots))"
  by (induction slots rule: preamble_dimensions.induct) simp_all

lemma line_ids_preamble_charts:
  "line_ids (preamble_charts charts)
   = concat (map (\<lambda>chart. ChartName chart # map (\<lambda>d. Name (gDimensionDefinitions d)) (members chart))
                 charts)"
  by (induction charts) (simp_all add: line_ids_append line_ids_preamble_dimensions members_def)

lemma line_ids_data_dimensions:
  "line_ids (data_dimensions pf st slots)
   = map (\<lambda>d. Name (gDimensionDefinitions d))
         (concat (map (\<lambda>slot. case slot of None \<Rightarrow> [] | Some d \<Rightarrow> [d]) slots))"
  by (induction slots rule: data_dimensions.induct) simp_all

lemma line_ids_data_charts:
  "line_ids (data_charts pf st d charts)
   = concat (map (\<lambda>chart. ChartName chart # map (\<lambda>d. Name (gDimensionDefinitions d)) (members chart))
                 charts)"
  by (induction charts) (simp_all add: line_ids_append line_ids_data_dimensions members_def)

lemma stdout_lines_enable_adc: "stdout_lines (fst (enable_adc e)) = []"
  by (auto simp: enable_adc_def andThen_def write_register_value_def Let_def
      split: sum.splits if_splits prod.splits)

lemma startup_Inl:
  "snd (startup argv e) = Inl msg \<Longrightarrow> stdout_lines (fst (startup argv e)) = []"
  using stdout_lines_enable_adc [of e]
  by (cases "enable_adc e")
     (auto simp: startup_def andThen_def stdout_lines_append stdout_lines_map_Stdout
        split: sum.splits if_splits prod.splits)

lemma startup_Inr:
  "snd (startup argv e) = Inr u \<Longrightarrow> stdout_lines (fst (startup argv e)) = print_charts_preamble"
  using stdout_lines_enable_adc [of e]
  by (cases "enable_adc e")
     (auto simp: startup_def andThen_def stdout_lines_append stdout_lines_map_Stdout
        split: sum.splits if_splits prod.splits)

lemma main_loop_frames:
  "\<exists>frames. stdout_lines (main_loop pf u cycles e st) = concat frames
     \<and> length frames \<le> length cycles
     \<and> (\<forall>f \<in> set frames. \<exists>st' d. f = print_chart_data pf st' d)"
proof (induction cycles arbitrary: e st)
  case Nil
  show ?case by (rule exI [of _ "[]"]) simp
next
  case (Cons c cs)
  show ?case
  proof (cases "gather_chart_data pf (cycle_bus c) st")
    case (Inl msg)
    then show ?thesis
      by (intro exI [of _ "[]"]) simp
  next
    case (Inr st')
    from Cons.IH [of "cycle_end c" st'] obtain frames where
      fr: "stdout_lines (main_loop pf u cs (cycle_end c) st') = concat frames"
      "length frames \<le> length cs"
      "\<forall>f \<in> set frames. \<exists>st' d. f = print_chart_data pf st' d"
      by blast
    show ?thesis
      by (rule exI [of _ "print_chart_data pf st'
              (if e \<noteq> 0 then cycle_start c - e else 0) # frames"])
         (use Inr fr in \<open>auto simp: Let_def stdout_lines_append stdout_lines_map_Stdout\<close>)
  qed
qed


lemma enable_adc_good_env: "enable_adc good_env = ([Ioctl], Inr 0)"
  by (simp add: enable_adc_def andThen_def good_env_def all_registers_def
      read_register_value_def Let_def)

lemma good_env_simps: "open_result good_env = 3"
  by (simp add: good_env_def)

lemma startup_good_env:
  "startup [prog] good_env = (OpenBus # Ioctl # map Stdout print_charts_preamble @ [Flush], Inr 1)"
  by (simp add: startup_def parse_update_every_def andThen_def enable_adc_good_env good_env_simps)

lemma main_good_env:
  "main pf [prog] good_env cycles
   = OpenBus # Ioctl # map Stdout print_charts_preamble @ [Flush]
     @ main_loop pf 1 cycles 0 initial_store"
  by (simp add: main_def startup_good_env)

lemma print_charts_preamble_headers: "l \<in> set print_charts_preamble \<Longrightarrow> is_header l"
  unfolding print_charts_preamble_def by (rule is_header_preamble_charts)

lemma print_chart_data_no_headers: "l \<in> set (print_chart_data pf st d) \<Longrightarrow> \<not> is_header l"
  unfolding print_chart_data_def by (rule not_header_data_charts)

lemma begin_hints_headers: "\<forall>l \<in> set ls. is_header l \<Longrightarrow> begin_hints ls = []"
  by (induction ls rule: begin_hints.induct) auto

lemma stdout_lines_main:
  "stdout_lines (main pf argv e cycles)
   = (case snd (startup argv e) of
        Inl msg \<Rightarrow> []
      | Inr u \<Rightarrow> print_charts_preamble @ stdout_lines (main_loop pf u cycles 0 initial_store))"
  using startup_Inl [of argv e] startup_Inr [of argv e]
  by (cases "startup argv e") (auto simp: main_def stdout_lines_append split: sum.splits)

lemma usleeps_main_loop_single:
  assumes "gather_chart_data pf (cycle_bus c) st = Inr st'"
  shows "usleeps (main_loop pf u [c] e st)
         = [ucast u * 1000000 - (cycle_end c - cycle_start c)]"
  using assms by (simp add: Let_def usleeps_append usleeps_map_Stdout)

lemma gather_not_isl:
  assumes "\<not> isl (gather_chart_data pf b initial_store)"
  obtains st' where "gather_chart_data pf b st = Inr st'"
  using assms gather_chart_data_indep [of pf b st initial_store]
  by (cases "gather_chart_data pf b initial_store") auto

lemma begin_hints_main_loop:
  assumes "\<forall>c \<in> set cycles. \<not> isl (gather_chart_data pf (cycle_bus c) initial_store)"
  shows "begin_hints (stdout_lines (main_loop pf u cycles e st))
         = concat (map (\<lambda>(prev_end, c). replicate 8
                          (if prev_end \<noteq> 0 \<and> cycle_start c \<noteq> prev_end
                           then Some (cycle_start c - prev_end) else None))
                       (zip (e # map cycle_end cycles) cycles))"
  using assms
proof (induction cycles arbitrary: e st)
  case Nil
  show ?case by simp
next
  case (Cons c cs)
  from Cons.prems have "\<not> isl (gather_chart_data pf (cycle_bus c) initial_store)"
    by simp
  then obtain st' where g: "gather_chart_data pf (cycle_bus c) st = Inr st'"
    by (rule gather_not_isl)
  from Cons.prems have "\<forall>c \<in> set cs. \<not> isl (gather_chart_data pf (cycle_bus c) initial_store)"
    by simp
  from Cons.IH [OF this, of "cycle_end c" st'] g show ?case
    by (simp add: Let_def stdout_lines_append stdout_lines_map_Stdout begin_hints_append
        begin_hints_print_chart_data)
qed

lemma begin_hints_main:
  assumes "snd (startup argv e) = Inr u"
    and "\<forall>c \<in> set cycles. \<not> isl (gather_chart_data pf (cycle_bus c) initial_store)"
  shows "begin_hints (stdout_lines (main pf argv e cycles))
         = concat (map (\<lambda>(prev_end, c). replicate 8
                          (if prev_end \<noteq> 0 \<and> cycle_start c \<noteq> prev_end
                           then Some (cycle_start c - prev_end) else None))
                       (zip (0 # map cycle_end cycles) cycles))"
  using assms(1) begin_hints_main_loop [OF assms(2), of u 0 initial_store]
    begin_hints_headers [of print_charts_preamble] print_charts_preamble_headers
  by (simp add: stdout_lines_main begin_hints_append)

lemma two_cycles_ok:
  "\<forall>c \<in> set [first_cycle, second_cycle].
     \<not> isl (gather_chart_data stub_platform (cycle_bus c) initial_store)"
  using gather_all_registers [of stub_platform 0 initial_store]
  by (auto simp: first_cycle_def second_cycle_def)

lemma catalog_order_names:
  "catalog_order =
     [''Chip.temps'', ''internaltemp'',
      ''Chip.batterylevel'', ''batlevel'',
      ''Chip.batterycurrent'', ''chargelimit'', ''chargeterm'', ''batcharge'', ''batdischarge'',
      ''Chip.batteryvoltage'', ''batvoltage'',
      ''Chip.acinvoltage'', ''acinvoltage'',
      ''Chip.acincurrent'', ''acincurrent'',
      ''Chip.vbusvoltage'', ''vbusvoltage'', ''vbusvoltagelimit'',
      ''Chip.vbuscurrent'', ''vbuscurrent'', ''vbuscurrentlimit'']"
  by (simp add: catalog_order_def gChartDefinitions_def members_def)

section \<open>Facts about the command line\<close>














section \<open>Claims about the decoder\<close>

text \<open>
  C7. For every bus-input status register byte, the bus-current-limit sample is valid
  exactly when the low two-bit field is 0, 1 or 2, with the values 900, 500 and 100,
  which are also what is rendered; the field value 3 leaves the sample invalid, and it
  renders as the empty string. The field has no other value.
\<close>

theorem bus_current_limit_selection:
  assumes "gather_chart_data pf b st0 = Inr st" and "b 0x30 = Data v"
  shows "(v AND 3 = 0 \<longrightarrow> is_valid st vbuscurrentlimit
            \<and> asUint16 (gData st vbuscurrentlimit) = 900
            \<and> format_data_value pf st vbuscurrentlimit = ''900'')
       \<and> (v AND 3 = 1 \<longrightarrow> is_valid st vbuscurrentlimit
            \<and> asUint16 (gData st vbuscurrentlimit) = 500
            \<and> format_data_value pf st vbuscurrentlimit = ''500'')
       \<and> (v AND 3 = 2 \<longrightarrow> is_valid st vbuscurrentlimit
            \<and> asUint16 (gData st vbuscurrentlimit) = 100
            \<and> format_data_value pf st vbuscurrentlimit = ''100'')
       \<and> (v AND 3 = 3 \<longrightarrow> \<not> is_valid st vbuscurrentlimit
            \<and> format_data_value pf st vbuscurrentlimit = [])
       \<and> (v AND 3 = 0 \<or> v AND 3 = 1 \<or> v AND 3 = 2 \<or> v AND 3 = 3)"
proof -
  from assms(1) obtain ps cc ips t s2 s3 s4 where
    "b 0x01 = Data ps" and "b 0x33 = Data cc" and r30: "b 0x30 = Data ips"
    and s2: "(if ps AND 0x20 \<noteq> 0
          then decode_battery pf b (decode_charge_limits cc
                 (save_data_float (st0\<lparr>gData := (\<lambda>_. 0), gIsValid := 0\<rparr>) internaltemp t))
          else Inr (decode_charge_limits cc
                 (save_data_float (st0\<lparr>gData := (\<lambda>_. 0), gIsValid := 0\<rparr>) internaltemp t))) = Inr s2"
    and s3: "(if ps AND 0x80 \<noteq> 0 then decode_acin pf b s2 else Inr s2) = Inr s3"
    and s4: "(if ps AND 0x20 \<noteq> 0 then decode_vbus pf b s3 else Inr s3) = Inr s4"
    and st': "st = decode_vbus_limits ips s4"
    by (rule gather_chart_data_InrE)
  from r30 assms(2) have st: "st = decode_vbus_limits v s4"
    by (simp add: st')
  have "\<not> is_valid s4 vbuscurrentlimit"
    using decode_vbus_frame [OF s4, of vbuscurrentlimit]
      decode_acin_frame [OF s3, of vbuscurrentlimit]
      decode_battery_frame [OF s2, of vbuscurrentlimit]
      decode_charge_limits_frame [of vbuscurrentlimit]
    by (simp add: store_simps)
  then have inv: "v AND 3 = 3 \<Longrightarrow> \<not> is_valid st vbuscurrentlimit"
    by (simp add: st decode_vbus_limits_def Let_def store_simps ucast_and3)
  have val: "v AND 3 = k \<Longrightarrow> k \<in> {0, 1, 2} \<Longrightarrow> is_valid st vbuscurrentlimit
        \<and> asUint16 (gData st vbuscurrentlimit) = targets ! unat k" for k
    by (auto simp: st decode_vbus_limits_def Let_def store_simps ucast_and3)
  show ?thesis
    using inv val [of 0] val [of 1] val [of 2] and3_cases [of v]
    by (auto simp: format_data_value_def targets_def)
qed

theorem bus_current_limit_selection_witness:
  "case gather_chart_data stub_platform (all_registers 0x41) initial_store of
     Inl _ \<Rightarrow> False
   | Inr st \<Rightarrow> all_registers 0x41 0x30 = Data 0x41
       \<and> is_valid st vbuscurrentlimit
       \<and> asUint16 (gData st vbuscurrentlimit) = 500
       \<and> format_data_value stub_platform st vbuscurrentlimit = ''500''"
proof -
  obtain st where g: "gather_chart_data stub_platform (all_registers 0x41) initial_store = Inr st"
    using gather_all_registers by blast
  have r: "all_registers 0x41 0x30 = Data 0x41"
    by (simp add: all_registers_def)
  from bus_current_limit_selection [OF g r] show ?thesis
    by (simp add: g r)
qed

text \<open>
  C5. For every pair of raw bytes, the two-register reassembly returns
  \<^verbatim>\<open>(high << 4) | (low & 0xF)\<close>, which is the number \<open>16 * high + low mod 16\<close>; the
  high byte \<^verbatim>\<open>0x12\<close> with the low byte \<^verbatim>\<open>0x3F\<close> gives 303.
\<close>

theorem read_multi_value_reassembly:
  assumes "b highaddress = Data high" and "b lowaddress = Data low"
  shows "read_multi_value b highaddress lowaddress
           = Inr (push_bit 4 (ucast high) OR (ucast low AND 0xF))
       \<and> unat (push_bit 4 (ucast high :: 16 word) OR (ucast low AND 0xF))
           = unat high * 16 + unat low mod 16
       \<and> (high = 0x12 \<longrightarrow> low = 0x3F \<longrightarrow>
            read_multi_value b highaddress lowaddress = Inr 303)"
proof -
  have eq: "read_multi_value b highaddress lowaddress
              = Inr (push_bit 4 (ucast high) OR (ucast low AND 0xF))"
    using assms by (simp add: read_multi_value_Inr_iff)
  then show ?thesis
    by (auto simp: reassemble_unat)
qed

theorem read_multi_value_reassembly_witness:
  "reassembly_bus 0x5E = Data 0x12 \<and> reassembly_bus 0x5F = Data 0x3F
   \<and> read_multi_value reassembly_bus 0x5E 0x5F = Inr 303"
  using read_multi_value_reassembly [of reassembly_bus "0x5E" "0x12" "0x5F" "0x3F"]
  by (simp add: reassembly_bus_def)

text \<open>
  C8. A decode cycle that completes gives the same store whatever store it starts from.
  In that store a validity flag is set exactly when this cycle's registers gate the
  quantity in: the internal temperature always, the charge limits on bit \<^verbatim>\<open>0x80\<close> of the
  charge-control register, the battery and bus readings on bit \<^verbatim>\<open>0x20\<close> and the AC-input
  readings on bit \<^verbatim>\<open>0x80\<close> of the power status, the bus-voltage limit on bit \<^verbatim>\<open>0x40\<close> of
  the bus-input status and the bus-current limit on its two-bit field not being 3. Every
  other flag is clear and the value under it is zero, even where the starting store had
  the flag set and a value; and, in any store, a quantity whose flag is unset renders as
  the empty string.
\<close>

theorem samples_reset_every_cycle:
  assumes "gather_chart_data pf b st0 = Inr st"
    and "b 0x01 = Data power_status" and "b 0x33 = Data charge_ctl"
    and "b 0x30 = Data vbus_ipsout"
  shows "gather_chart_data pf b st1 = Inr st
       \<and> (is_valid st d \<longleftrightarrow>
            d = internaltemp
            \<or> (charge_ctl AND 0x80 \<noteq> 0 \<and> d \<in> {chargelimit, chargeterm})
            \<or> (power_status AND 0x20 \<noteq> 0
                \<and> d \<in> {batcharge, batdischarge, batlevel, batvoltage, vbusvoltage, vbuscurrent})
            \<or> (power_status AND 0x80 \<noteq> 0 \<and> d \<in> {acinvoltage, acincurrent})
            \<or> (vbus_ipsout AND 0x40 \<noteq> 0 \<and> d = vbusvoltagelimit)
            \<or> (vbus_ipsout AND 3 \<noteq> 3 \<and> d = vbuscurrentlimit))
       \<and> (\<not> is_valid st d \<longrightarrow> gData st d = 0 \<and> format_data_value pf st d = [])
       \<and> (\<not> is_valid s d \<longrightarrow> format_data_value pf s d = [])"
proof -
  from assms(1) obtain ps cc ips t s2 s3 s4 where
    r1: "b 0x01 = Data ps" and r33: "b 0x33 = Data cc" and r30: "b 0x30 = Data ips"
    and s2: "(if ps AND 0x20 \<noteq> 0
          then decode_battery pf b (decode_charge_limits cc
                 (save_data_float (st0\<lparr>gData := (\<lambda>_. 0), gIsValid := 0\<rparr>) internaltemp t))
          else Inr (decode_charge_limits cc
                 (save_data_float (st0\<lparr>gData := (\<lambda>_. 0), gIsValid := 0\<rparr>) internaltemp t))) = Inr s2"
    and s3: "(if ps AND 0x80 \<noteq> 0 then decode_acin pf b s2 else Inr s2) = Inr s3"
    and s4: "(if ps AND 0x20 \<noteq> 0 then decode_vbus pf b s3 else Inr s3) = Inr s4"
    and st: "st = decode_vbus_limits ips s4"
    by (rule gather_chart_data_InrE)
  from r1 r33 r30 assms(2-4) have regs: "ps = power_status" "cc = charge_ctl" "ips = vbus_ipsout"
    by simp_all
  define s0 where "s0 = save_data_float (st0\<lparr>gData := (\<lambda>_. 0), gIsValid := 0\<rparr>) internaltemp t"
  have v0: "is_valid s0 d \<longleftrightarrow> d = internaltemp"
    by (auto simp: s0_def store_simps)
  have s2': "(if ps AND 0x20 \<noteq> 0 then decode_battery pf b (decode_charge_limits cc s0)
              else Inr (decode_charge_limits cc s0)) = Inr s2"
    unfolding s0_def by (fact s2)
  have valid: "is_valid st d \<longleftrightarrow>
            d = internaltemp
            \<or> (charge_ctl AND 0x80 \<noteq> 0 \<and> d \<in> {chargelimit, chargeterm})
            \<or> (power_status AND 0x20 \<noteq> 0
                \<and> d \<in> {batcharge, batdischarge, batlevel, batvoltage, vbusvoltage, vbuscurrent})
            \<or> (power_status AND 0x80 \<noteq> 0 \<and> d \<in> {acinvoltage, acincurrent})
            \<or> (vbus_ipsout AND 0x40 \<noteq> 0 \<and> d = vbusvoltagelimit)
            \<or> (vbus_ipsout AND 3 \<noteq> 3 \<and> d = vbuscurrentlimit)"
    unfolding st is_valid_decode_vbus_limits is_valid_decode_vbus [OF s4]
      is_valid_decode_acin [OF s3] is_valid_decode_battery [OF s2']
      is_valid_decode_charge_limits v0 regs
    by blast
  have "\<forall>d. \<not> is_valid s0 d \<longrightarrow> gData s0 d = 0"
    unfolding s0_def by (rule cleared_after_temperature)
  then have "\<forall>d. \<not> is_valid (decode_charge_limits cc s0) d
                \<longrightarrow> gData (decode_charge_limits cc s0) d = 0"
    by (rule cleared_decode_charge_limits)
  then have "\<forall>d. \<not> is_valid s2 d \<longrightarrow> gData s2 d = 0"
    by (rule cleared_decode_battery [OF s2'])
  then have "\<forall>d. \<not> is_valid s3 d \<longrightarrow> gData s3 d = 0"
    by (rule cleared_decode_acin [OF s3])
  then have "\<forall>d. \<not> is_valid s4 d \<longrightarrow> gData s4 d = 0"
    by (rule cleared_decode_vbus [OF s4])
  then have "\<forall>d. \<not> is_valid st d \<longrightarrow> gData st d = 0"
    unfolding st by (rule cleared_decode_vbus_limits)
  then have cleared: "\<not> is_valid st d \<longrightarrow> gData st d = 0 \<and> format_data_value pf st d = []"
    by (simp add: format_data_value_def)
  have indep: "gather_chart_data pf b st1 = Inr st"
    using gather_chart_data_indep [of pf b st1 st0] assms(1) by simp
  have empty: "\<not> is_valid s d \<longrightarrow> format_data_value pf s d = []"
    by (simp add: format_data_value_def)
  from indep valid cleared empty show ?thesis
    by blast
qed

theorem samples_reset_every_cycle_witness:
  "is_valid stale_store batlevel \<and> gData stale_store batlevel \<noteq> 0
   \<and> (case gather_chart_data stub_platform (all_registers 0) stale_store of
         Inl _ \<Rightarrow> False
       | Inr st \<Rightarrow> \<not> is_valid st batlevel \<and> gData st batlevel = 0
           \<and> format_data_value stub_platform st batlevel = []
           \<and> is_valid st internaltemp \<and> is_valid st vbuscurrentlimit
           \<and> gather_chart_data stub_platform (all_registers 0) initial_store = Inr st)"
proof -
  obtain st where g: "gather_chart_data stub_platform (all_registers 0) stale_store = Inr st"
    using gather_all_registers by blast
  have r: "all_registers 0 0x01 = Data 0" "all_registers 0 0x33 = Data 0"
    "all_registers 0 0x30 = Data 0"
    by (simp_all add: all_registers_def)
  have stale: "is_valid stale_store batlevel \<and> gData stale_store batlevel \<noteq> 0"
    by (simp add: is_valid_def stale_store_def)
  from samples_reset_every_cycle [OF g r, of initial_store batlevel]
    samples_reset_every_cycle [OF g r, of initial_store internaltemp]
    samples_reset_every_cycle [OF g r, of initial_store vbuscurrentlimit]
    stale
  show ?thesis
    by (simp add: g)
qed



text \<open>
  C6. For every charge-control byte with bit \<^verbatim>\<open>0x80\<close> set, the charge limit is the low
  four-bit field times 100 plus 300, and the termination limit is a tenth of it,
  increased by half of itself (in integer arithmetic) exactly when bit \<^verbatim>\<open>0x10\<close> is set.
  The byte \<^verbatim>\<open>0x8F\<close> gives 1800 and 180; with bit \<^verbatim>\<open>0x10\<close> set as well, the byte
  \<^verbatim>\<open>0x9F\<close>, it gives 1800 and 270.
\<close>

theorem charge_limits_derivation:
  assumes "gather_chart_data pf b st0 = Inr st" and "b 0x33 = Data c" and "c AND 0x80 \<noteq> 0"
  shows "is_valid st chargelimit
       \<and> unat (asUint16 (gData st chargelimit)) = unat (c AND 0xF) * 100 + 300
       \<and> format_data_value pf st chargelimit = dec (unat (c AND 0xF) * 100 + 300)
       \<and> is_valid st chargeterm
       \<and> unat (asUint16 (gData st chargeterm))
           = (if c AND 0x10 \<noteq> 0
              then (unat (c AND 0xF) * 100 + 300) div 10 + (unat (c AND 0xF) * 100 + 300) div 10 div 2
              else (unat (c AND 0xF) * 100 + 300) div 10)
       \<and> format_data_value pf st chargeterm = dec (unat (asUint16 (gData st chargeterm)))
       \<and> (c = 0x8F \<longrightarrow> asUint16 (gData st chargelimit) = 1800
                        \<and> asUint16 (gData st chargeterm) = 180)
       \<and> (c = 0x9F \<longrightarrow> asUint16 (gData st chargelimit) = 1800
                        \<and> asUint16 (gData st chargeterm) = 270)"
proof -
  from assms(1) obtain ps cc ips t s2 s3 s4 where
    "b 0x01 = Data ps" and r33: "b 0x33 = Data cc" and "b 0x30 = Data ips"
    and s2: "(if ps AND 0x20 \<noteq> 0
          then decode_battery pf b (decode_charge_limits cc
                 (save_data_float (st0\<lparr>gData := (\<lambda>_. 0), gIsValid := 0\<rparr>) internaltemp t))
          else Inr (decode_charge_limits cc
                 (save_data_float (st0\<lparr>gData := (\<lambda>_. 0), gIsValid := 0\<rparr>) internaltemp t))) = Inr s2"
    and s3: "(if ps AND 0x80 \<noteq> 0 then decode_acin pf b s2 else Inr s2) = Inr s3"
    and s4: "(if ps AND 0x20 \<noteq> 0 then decode_vbus pf b s3 else Inr s3) = Inr s4"
    and st: "st = decode_vbus_limits ips s4"
    by (rule gather_chart_data_InrE)
  from r33 assms(2) have cc: "cc = c"
    by simp
  define s1 where "s1 = decode_charge_limits c
    (save_data_float (st0\<lparr>gData := (\<lambda>_. 0), gIsValid := 0\<rparr>) internaltemp t)"
  have frame: "is_valid st d = is_valid s1 d \<and> gData st d = gData s1 d"
    if "d \<in> {chargelimit, chargeterm}" for d
    using that decode_vbus_limits_frame [of d ips s4]
      decode_vbus_frame [OF s4, of d] decode_acin_frame [OF s3, of d]
      decode_battery_frame [OF s2, of d]
    by (auto simp: st cc s1_def)
  note set = decode_charge_limits_set [OF assms(3), of
      "save_data_float (st0\<lparr>gData := (\<lambda>_. 0), gIsValid := 0\<rparr>) internaltemp t",
      folded s1_def]
  have v1: "is_valid st chargelimit" and v2: "is_valid st chargeterm"
    using frame [of chargelimit] frame [of chargeterm] set by simp_all
  have l: "asUint16 (gData st chargelimit) = ucast (c AND 0xF) * 100 + 300"
    using frame [of chargelimit] set by simp
  have tm: "asUint16 (gData st chargeterm)
           = (if c AND 0x10 \<noteq> 0
              then (ucast (c AND 0xF) * 100 + 300) div 10
                   + drop_bit 1 ((ucast (c AND 0xF) * 100 + 300) div 10)
              else (ucast (c AND 0xF) * 100 + 300) div 10)"
    using frame [of chargeterm] set by simp
  have ul: "unat (asUint16 (gData st chargelimit)) = unat (c AND 0xF) * 100 + 300"
    by (simp add: l unat_charge_current_limit)
  have bound: "unat ((ucast (c AND 0xF) :: 16 word) * 100 + 300) \<le> 1800"
    using unat_low_nibble [of c] by (simp add: unat_charge_current_limit)
  have ut: "unat (asUint16 (gData st chargeterm))
           = (if c AND 0x10 \<noteq> 0
              then (unat (c AND 0xF) * 100 + 300) div 10 + (unat (c AND 0xF) * 100 + 300) div 10 div 2
              else (unat (c AND 0xF) * 100 + 300) div 10)"
    using unat_charge_termination_limit [OF bound]
    by (simp add: tm unat_charge_current_limit)
  have f1: "format_data_value pf st chargelimit = dec (unat (c AND 0xF) * 100 + 300)"
    using v1 ul by (simp add: format_data_value_def)
  have f2: "format_data_value pf st chargeterm = dec (unat (asUint16 (gData st chargeterm)))"
    using v2 by (simp add: format_data_value_def)
  have e1: "asUint16 (gData st chargelimit) = 1800 \<and> asUint16 (gData st chargeterm) = 180"
    if "c = 0x8F"
    using ul ut that by (simp add: word_unat_eq_iff)
  have e2: "asUint16 (gData st chargelimit) = 1800 \<and> asUint16 (gData st chargeterm) = 270"
    if "c = 0x9F"
    using ul ut that by (simp add: word_unat_eq_iff)
  from v1 v2 ul ut f1 f2 e1 e2 show ?thesis
    by blast
qed

theorem charge_limits_derivation_witness:
  "case gather_chart_data stub_platform (all_registers 0x9F) initial_store of
     Inl _ \<Rightarrow> False
   | Inr st \<Rightarrow> is_valid st chargelimit \<and> asUint16 (gData st chargelimit) = 1800
       \<and> format_data_value stub_platform st chargelimit = ''1800''
       \<and> is_valid st chargeterm \<and> asUint16 (gData st chargeterm) = 270
       \<and> format_data_value stub_platform st chargeterm = ''270''"
proof -
  obtain st where g: "gather_chart_data stub_platform (all_registers 0x9F) initial_store = Inr st"
    using gather_all_registers by blast
  have r: "all_registers 0x9F 0x33 = Data 0x9F"
    by (simp add: all_registers_def)
  have bit: "(0x9F :: 8 word) AND 0x80 \<noteq> 0"
    by simp
  from charge_limits_derivation [OF g r bit] show ?thesis
    by (simp add: g)
qed

text \<open>
  C1. The claim is that, with bit \<^verbatim>\<open>0x40\<close> of register \<^verbatim>\<open>0x30\<close> set, the bus-voltage
  limit is stored as the \<^verbatim>\<open>Uint16\<close> it is declared to be and rendered as that number.
  The source stores it with \<^verbatim>\<open>save_data_float\<close>, and \<^verbatim>\<open>format_data_value\<close> reads the
  member \<^verbatim>\<open>asUint16\<close> of the same bytes. When every register holds \<^verbatim>\<open>0x40\<close> the limit is
  \<open>8 * 100 + 4000 = 4800\<close>; the sample is valid, its bytes are those of the float
  \<open>4800.0\<close>, whose low half is zero, and the rendered text is \<^verbatim>\<open>0\<close>, not \<^verbatim>\<open>4800\<close>.
\<close>

theorem bus_voltage_limit_read_back_from_float:
  "case gather_chart_data stub_platform (all_registers 0x40) initial_store of
     Inl _ \<Rightarrow> False
   | Inr st \<Rightarrow>
       (ucast (drop_bit 3 (0x40 :: 8 word)) :: 16 word) * 100 + 4000 = 4800
       \<and> DataType (gDimensionDefinitions vbusvoltagelimit) = Uint16
       \<and> is_valid st vbusvoltagelimit
       \<and> gData st vbusvoltagelimit = float_of_uint16 4800
       \<and> asUint16 (gData st vbusvoltagelimit) = 0
       \<and> format_data_value stub_platform st vbusvoltagelimit = ''0''
       \<and> dec 4800 = ''4800''"
proof -
  obtain st where g: "gather_chart_data stub_platform (all_registers 0x40) initial_store = Inr st"
    using gather_all_registers by blast
  have r: "all_registers 0x40 0x30 = Data 0x40"
    by (simp add: all_registers_def)
  have bit: "(0x40 :: 8 word) AND 0x40 \<noteq> 0"
    by simp
  have lim: "(ucast (drop_bit 3 (ucast (0x40 :: 8 word) :: 32 word) * 100 + 4000) :: 16 word) = 4800"
    by (simp add: drop_bit_eq_div)
  have enc: "float_of_uint16 4800 = 0x45960000"
    by (simp add: float_of_uint16_def ieee_of_nat_def)
  from vbus_voltage_limit_float [OF g r bit] show ?thesis
    by (simp add: g lim enc format_data_value_def asUint16_def drop_bit_eq_div)
qed

section \<open>Claims about the process\<close>

text \<open>
  C9. A run whose start-up fails writes nothing to the standard output. In every other
  run the standard output is the preamble followed by frames, at most one per cycle: the
  preamble is there once, before any frame; its lines are \<^verbatim>\<open>CHART\<close> and \<^verbatim>\<open>DIMENSION\<close>
  lines and no line of a frame is one; and the chart and dimension names of the
  preamble, and of every frame, are the names of the catalog in its declaration order.
\<close>

theorem preamble_once_before_frames:
  "(\<forall>msg. snd (startup argv e) = Inl msg \<longrightarrow> stdout_lines (main pf argv e cycles) = [])
   \<and> (\<forall>u. snd (startup argv e) = Inr u \<longrightarrow>
        (\<exists>frames. stdout_lines (main pf argv e cycles) = print_charts_preamble @ concat frames
           \<and> length frames \<le> length cycles
           \<and> (\<forall>f \<in> set frames. \<exists>st d. f = print_chart_data pf st d)))
   \<and> print_charts_preamble \<noteq> []
   \<and> (\<forall>l \<in> set print_charts_preamble. is_header l)
   \<and> (\<forall>l \<in> set (print_chart_data pf st d). \<not> is_header l)
   \<and> line_ids print_charts_preamble = catalog_order
   \<and> line_ids (print_chart_data pf st d) = catalog_order
   \<and> catalog_order =
       [''Chip.temps'', ''internaltemp'',
        ''Chip.batterylevel'', ''batlevel'',
        ''Chip.batterycurrent'', ''chargelimit'', ''chargeterm'', ''batcharge'', ''batdischarge'',
        ''Chip.batteryvoltage'', ''batvoltage'',
        ''Chip.acinvoltage'', ''acinvoltage'',
        ''Chip.acincurrent'', ''acincurrent'',
        ''Chip.vbusvoltage'', ''vbusvoltage'', ''vbusvoltagelimit'',
        ''Chip.vbuscurrent'', ''vbuscurrent'', ''vbuscurrentlimit'']"
proof -
  have a: "\<forall>msg. snd (startup argv e) = Inl msg \<longrightarrow> stdout_lines (main pf argv e cycles) = []"
    by (simp add: stdout_lines_main)
  have b: "\<forall>u. snd (startup argv e) = Inr u \<longrightarrow>
        (\<exists>frames. stdout_lines (main pf argv e cycles) = print_charts_preamble @ concat frames
           \<and> length frames \<le> length cycles
           \<and> (\<forall>f \<in> set frames. \<exists>st d. f = print_chart_data pf st d))"
    using main_loop_frames [of pf _ cycles 0 initial_store]
    by (simp add: stdout_lines_main)
  have c: "print_charts_preamble \<noteq> []"
    by (simp add: print_charts_preamble_def gChartDefinitions_def)
  have d: "line_ids print_charts_preamble = catalog_order"
    by (simp add: print_charts_preamble_def catalog_order_def line_ids_preamble_charts)
  have e: "line_ids (print_chart_data pf st d) = catalog_order"
    by (simp add: print_chart_data_def catalog_order_def line_ids_data_charts)
  from a b c d e catalog_order_names show ?thesis
    using print_charts_preamble_headers print_chart_data_no_headers by blast
qed

theorem preamble_once_before_frames_witness:
  "snd (startup [''chip.plugin''] good_env) = Inr 1
   \<and> take (length print_charts_preamble)
        (stdout_lines (main stub_platform [''chip.plugin''] good_env [first_cycle, second_cycle]))
      = print_charts_preamble
   \<and> line_ids print_charts_preamble = catalog_order"
proof -
  have s: "snd (startup [''chip.plugin''] good_env) = Inr 1"
    by (simp add: startup_good_env)
  from preamble_once_before_frames
    [of "[''chip.plugin'']" good_env stub_platform "[first_cycle, second_cycle]" initial_store 0] s
  obtain frames where
    "stdout_lines (main stub_platform [''chip.plugin''] good_env [first_cycle, second_cycle])
     = print_charts_preamble @ concat frames"
    and "line_ids print_charts_preamble = catalog_order"
    by blast
  with s show ?thesis
    by simp
qed

text \<open>
  C2. The claim is that the sleep at the end of a cycle that took longer than the interval
  is floored at zero. The source subtracts the duration from the interval in \<^verbatim>\<open>uint64_t\<close>
  without a test. With the interval of one second and a cycle of 1000001 microseconds the
  argument of \<^verbatim>\<open>usleep\<close> is \<open>2 ^ 64 - 1\<close>, and \<open>2 ^ 32 - 1\<close> once it is converted to the 32-bit
  \<^verbatim>\<open>useconds_t\<close>.
\<close>

theorem overrun_sleep_argument_wraps_around:
  "cycle_end overrun_cycle - cycle_start overrun_cycle = 1000001
   \<and> usleeps (main stub_platform [''chip.plugin''] good_env [overrun_cycle])
      = [0xFFFFFFFFFFFFFFFF]
   \<and> (ucast (0xFFFFFFFFFFFFFFFF :: 64 word) :: 32 word) = 0xFFFFFFFF"
proof -
  obtain st where "gather_chart_data stub_platform (cycle_bus overrun_cycle) initial_store = Inr st"
    using gather_all_registers [of stub_platform 0 initial_store]
    by (auto simp: overrun_cycle_def)
  from usleeps_main_loop_single [OF this, of 1 0] show ?thesis
    by (simp add: main_good_env usleeps_append usleeps_map_Stdout overrun_cycle_def)
qed

text \<open>
  C3, as amended. In a run that completes its start-up and whose cycles all complete, the
  \<^verbatim>\<open>BEGIN\<close> lines of the first frame carry no number, and those of every later frame carry
  the start timestamp of the cycle minus the end timestamp of the previous cycle; they
  carry no number when that difference, or the previous end timestamp, is zero.
\<close>

theorem elapsed_time_hint_of_frames:
  assumes "snd (startup argv e) = Inr u"
    and "\<forall>c \<in> set cycles. \<not> isl (gather_chart_data pf (cycle_bus c) initial_store)"
  shows "begin_hints (stdout_lines (main pf argv e cycles))
         = concat (map (\<lambda>(prev_end, c). replicate 8
                          (if prev_end \<noteq> 0 \<and> cycle_start c \<noteq> prev_end
                           then Some (cycle_start c - prev_end) else None))
                       (zip (0 # map cycle_end cycles) cycles))"
  using assms by (rule begin_hints_main)

theorem elapsed_time_hint_of_frames_witness:
  "begin_hints (stdout_lines
     (main stub_platform [''chip.plugin''] good_env [first_cycle, second_cycle]))
   = replicate 8 None @ replicate 8 (Some (cycle_start second_cycle - cycle_end first_cycle))"
proof -
  have s: "snd (startup [''chip.plugin''] good_env) = Inr 1"
    by (simp add: startup_good_env)
  from elapsed_time_hint_of_frames [OF s two_cycles_ok] show ?thesis
    by (simp add: first_cycle_def second_cycle_def)
qed

text \<open>
  C3, as stated, says that the number is the difference of two successive cycle-end
  timestamps. In the run of the two cycles above the second frame carries 999500, and the
  two cycle-end timestamps are 1000500 apart.
\<close>

theorem hint_differs_from_delta_of_cycle_ends:
  "begin_hints (stdout_lines
     (main stub_platform [''chip.plugin''] good_env [first_cycle, second_cycle]))
   = replicate 8 None @ replicate 8 (Some 999500)
   \<and> cycle_end second_cycle - cycle_end first_cycle = 1000500
   \<and> (999500 :: 64 word) \<noteq> 1000500"
proof -
  have s: "snd (startup [''chip.plugin''] good_env) = Inr 1"
    by (simp add: startup_good_env)
  from begin_hints_main [OF s two_cycles_ok] show ?thesis
    by (simp add: first_cycle_def second_cycle_def)
qed





end
